theory Spec2Isabelle
  imports Main
begin

section \<open>Queries, errors and values\<close>

text \<open>
  The orchestrator of \<^verbatim>\<open>be_cache.go\<close> composes two cache tiers, a loader and a
  logger, all of them interfaces implemented elsewhere. The model threads one external
  state \<open>'s\<close> through every call of such a capability, and keeps a trace of the calls made,
  so that "never consulted" and "written with this TTL" are statements about the trace.

  A query is the pair of a namespace and an identifier. \<^verbatim>\<open>query.FullPath()\<close> is used for
  the text of messages and as the key of the single-flight group only; the model keeps the
  query itself in those places.
\<close>

record query =
  Space :: string
  Key :: string

type_synonym duration = int

type_synonym bytes = string

text \<open>
  Go compares errors by identity. The sentinels are constructors of their own; \<open>External\<close>
  is any other error value a backend, a loader, the codec or a context hands in. The
  message texts of the source are not ASCII; each is a constructor of \<open>msg\<close>:
  \<^item> \<open>CacheLoadFailed\<close>: the text given to \<^verbatim>\<open>WithMessage\<close> in \<^verbatim>\<open>cacheGet\<close>;
  \<^item> \<open>DbLoadFailed\<close>, \<open>DbResultNil\<close>, \<open>DelAfterLoadFailed\<close>: the texts of \<^verbatim>\<open>loadDB\<close>;
  \<^item> \<open>CacheSetFailed\<close>: the text of the warning in \<^verbatim>\<open>cacheSet\<close>;
  \<^item> \<open>LoadFailed\<close>, \<open>NilNotHandled\<close>: the texts of \<^verbatim>\<open>getWithLoader\<close>;
  \<^item> \<open>LoaderNotRegistered\<close>: the text of \<^verbatim>\<open>GetWithContext\<close>;
  \<^item> \<open>ErrorText e\<close>: the string \<^verbatim>\<open>e.Error()\<close>.
  \<open>New\<close> is an error made by \<^verbatim>\<open>zerrors.New\<close> or \<^verbatim>\<open>errors.New\<close>, \<open>NewSimple\<close> one made by
  \<^verbatim>\<open>zerrors.NewSimplef\<close>, and \<open>WithMessage e t\<close> is \<^verbatim>\<open>zerrors.WithMessage(e, t)\<close>: a new
  error that wraps \<open>e\<close>, equal to no sentinel.
\<close>

datatype error =
    NoEntry
  | ErrNoEntry
  | NilData
  | External string
  | New msg
  | NewSimple msg
  | WithMessage error msg
and msg =
    CacheLoadFailed
  | DbLoadFailed
  | DbResultNil
  | CacheSetFailed query
  | DelAfterLoadFailed query
  | LoadFailed query
  | LoaderNotRegistered string
  | NilNotHandled
  | ErrorText error

text \<open>
  An \<^verbatim>\<open>interface{}\<close> handed to or returned by a capability: \<^verbatim>\<open>nil\<close>, the sentinel
  \<^verbatim>\<open>NoEntry\<close> used as a value (the negative marker), or a payload.
\<close>

datatype 'v object = nil | NoEntry_obj | Obj 'v

text \<open>
  What a call leaves to its caller: \<open>Done v\<close> is a \<^verbatim>\<open>nil\<close> error with \<open>v\<close> assigned to
  the destination (\<open>unit\<close> where there is none), \<open>Failed e\<close> a returned error, \<open>Panicked\<close> a
  panic.
\<close>

datatype 'a outcome = Done 'a | Failed error | Panicked

text \<open>
  The destination a caller hands to the Get operations is a pointer the result is written
  through. The model keeps of it what the write depends on: the values that can be
  assigned to it. \<^verbatim>\<open>reflect.Value.Set\<close> panics on any other value, and so does \<^verbatim>\<open>Elem\<close> when
  the destination is no pointer (then no value can be assigned).
\<close>

type_synonym 'v dest = "'v object \<Rightarrow> bool"

section \<open>Capabilities and the trace of their calls\<close>

record ('s, 'v) cachedb =
  Get :: "query \<Rightarrow> 's \<Rightarrow> ('v object \<times> error option) \<times> 's"
  Set :: "query \<Rightarrow> 'v object \<Rightarrow> duration \<Rightarrow> 's \<Rightarrow> error option \<times> 's"
  Del :: "query \<Rightarrow> 's \<Rightarrow> error option \<times> 's"
  DelSpaceData :: "string \<Rightarrow> 's \<Rightarrow> error option \<times> 's"

record ('s, 'v) loader =
  Name :: string
  Load :: "query \<Rightarrow> 's \<Rightarrow> ('v object \<times> error option) \<times> 's"
  Expire :: duration

record 'v msgpack =
  Encode :: "'v object \<Rightarrow> bytes \<times> error option"
  Decode :: "bytes \<Rightarrow> 'v dest \<Rightarrow> error + 'v object"

datatype tier = Local | Remote

datatype 'v event =
    EGet tier query
  | ESet tier query "'v object" duration
  | EDel tier query
  | EDelSpaceData tier string
  | ELoad query
  | EWarn error

record ('s, 'v) world =
  ext :: 's
  trace :: "'v event list"

definition call_Get ::
  "tier \<Rightarrow> ('s, 'v) cachedb \<Rightarrow> query \<Rightarrow> ('s, 'v) world
    \<Rightarrow> ('v object \<times> error option) \<times> ('s, 'v) world" where
  "call_Get t c q w =
     (case Get c q (ext w) of (r, s) \<Rightarrow> (r, \<lparr>ext = s, trace = trace w @ [EGet t q]\<rparr>))"

definition call_Set ::
  "tier \<Rightarrow> ('s, 'v) cachedb \<Rightarrow> query \<Rightarrow> 'v object \<Rightarrow> duration \<Rightarrow> ('s, 'v) world
    \<Rightarrow> error option \<times> ('s, 'v) world" where
  "call_Set t c q a ex w =
     (case Set c q a ex (ext w) of (e, s) \<Rightarrow> (e, \<lparr>ext = s, trace = trace w @ [ESet t q a ex]\<rparr>))"

definition call_Del ::
  "tier \<Rightarrow> ('s, 'v) cachedb \<Rightarrow> query \<Rightarrow> ('s, 'v) world \<Rightarrow> error option \<times> ('s, 'v) world" where
  "call_Del t c q w =
     (case Del c q (ext w) of (e, s) \<Rightarrow> (e, \<lparr>ext = s, trace = trace w @ [EDel t q]\<rparr>))"

definition call_DelSpaceData ::
  "tier \<Rightarrow> ('s, 'v) cachedb \<Rightarrow> string \<Rightarrow> ('s, 'v) world \<Rightarrow> error option \<times> ('s, 'v) world" where
  "call_DelSpaceData t c space w =
     (case DelSpaceData c space (ext w) of
        (e, s) \<Rightarrow> (e, \<lparr>ext = s, trace = trace w @ [EDelSpaceData t space]\<rparr>))"

definition call_Load ::
  "('s, 'v) loader \<Rightarrow> query \<Rightarrow> ('s, 'v) world \<Rightarrow> ('v object \<times> error option) \<times> ('s, 'v) world" where
  "call_Load ld q w =
     (case Load ld q (ext w) of (r, s) \<Rightarrow> (r, \<lparr>ext = s, trace = trace w @ [ELoad q]\<rparr>))"

definition log_Warn :: "error \<Rightarrow> ('s, 'v) world \<Rightarrow> ('s, 'v) world" where
  "log_Warn e w = w\<lparr>trace := trace w @ [EWarn e]\<rparr>"

section \<open>The orchestrator of be_cache.go\<close>

record ('s, 'v) BECache =
  cdb :: "('s, 'v) cachedb"
  local_cdb :: "('s, 'v) cachedb option"
  local_cdb_ex :: duration
  cache_no_entry :: bool
  cache_no_entry_ex :: duration
  loaders :: "string \<rightharpoonup> ('s, 'v) loader"
  deepcopy_result :: bool

definition DefaultLocalCacheExpire :: duration where
  "DefaultLocalCacheExpire = 1000000000"

definition DefaultCacheNoEntryExpire :: duration where
  "DefaultCacheNoEntryExpire = 1000000000 * 5"

definition New_BECache :: "('s, 'v) cachedb \<Rightarrow> ('s, 'v) BECache" where
  "New_BECache c =
     \<lparr>cdb = c, local_cdb = None, local_cdb_ex = DefaultLocalCacheExpire,
      cache_no_entry = True, cache_no_entry_ex = DefaultCacheNoEntryExpire,
      loaders = Map.empty, deepcopy_result = False\<rparr>"

definition RegisterLoader :: "('s, 'v) BECache \<Rightarrow> ('s, 'v) loader \<Rightarrow> ('s, 'v) BECache" where
  "RegisterLoader m ld = m\<lparr>loaders := (loaders m)(Name ld \<mapsto> ld)\<rparr>"

definition getLoader :: "('s, 'v) BECache \<Rightarrow> string \<Rightarrow> ('s, 'v) loader option" where
  "getLoader m space = loaders m space"

definition localCacheSet ::
  "('s, 'v) BECache \<Rightarrow> query \<Rightarrow> 'v object \<Rightarrow> ('s, 'v) world \<Rightarrow> ('s, 'v) world" where
  "localCacheSet m q a w =
     (case local_cdb m of
        None \<Rightarrow> w
      | Some l \<Rightarrow> snd (call_Set Local l q a (local_cdb_ex m) w))"

text \<open>
  \<^verbatim>\<open>cacheGet\<close> is two blocks. The first returns from the function on a local hit and falls
  through otherwise: \<open>cacheGet_local\<close> gives \<open>Some r\<close> when it returns \<open>r\<close> and \<open>None\<close> when
  control reaches the second block, \<open>cacheGet_cdb\<close>. The destination pointer the source
  passes to \<^verbatim>\<open>Get\<close> tells the backend the type to decode into; the model has the backend
  return the value.
\<close>

definition cacheGet_local ::
  "('s, 'v) BECache \<Rightarrow> query \<Rightarrow> ('s, 'v) world
    \<Rightarrow> ('v object \<times> error option) option \<times> ('s, 'v) world" where
  "cacheGet_local m q w =
     (case local_cdb m of
        None \<Rightarrow> (None, w)
      | Some l \<Rightarrow>
          (case call_Get Local l q w of
             ((out, err), w1) \<Rightarrow>
               if err = None \<or> err = Some NoEntry then (Some (out, err), w1) else (None, w1)))"

definition cacheGet_cdb ::
  "('s, 'v) BECache \<Rightarrow> query \<Rightarrow> ('s, 'v) world
    \<Rightarrow> ('v object \<times> error option) \<times> ('s, 'v) world" where
  "cacheGet_cdb m q w =
     (case call_Get Remote (cdb m) q w of
        ((out, err), w1) \<Rightarrow>
          (case err of
             None \<Rightarrow> ((out, None), localCacheSet m q out w1)
           | Some e \<Rightarrow>
               if e = NoEntry then ((nil, Some NoEntry), localCacheSet m q NoEntry_obj w1)
               else if e = ErrNoEntry then ((nil, Some ErrNoEntry), w1)
               else ((nil, Some (WithMessage e CacheLoadFailed)), w1)))"

definition cacheGet ::
  "('s, 'v) BECache \<Rightarrow> query \<Rightarrow> ('s, 'v) world
    \<Rightarrow> ('v object \<times> error option) \<times> ('s, 'v) world" where
  "cacheGet m q w =
     (case cacheGet_local m q w of
        (Some r, w1) \<Rightarrow> (r, w1)
      | (None, w1) \<Rightarrow> cacheGet_cdb m q w1)"

text \<open>
  \<open>cacheSet_cdb\<close> is the last statement of \<^verbatim>\<open>cacheSet\<close>: the write to the remote tier,
  with a warning logged when it fails.
\<close>

definition cacheSet_cdb ::
  "('s, 'v) BECache \<Rightarrow> query \<Rightarrow> 'v object \<Rightarrow> duration \<Rightarrow> ('s, 'v) world
    \<Rightarrow> ('s, 'v) world" where
  "cacheSet_cdb m q a ex w =
     (case call_Set Remote (cdb m) q a ex w of
        (None, w1) \<Rightarrow> w1
      | (Some e, w1) \<Rightarrow> log_Warn (WithMessage e (CacheSetFailed q)) w1)"

definition cacheSet ::
  "('s, 'v) BECache \<Rightarrow> query \<Rightarrow> 'v object \<Rightarrow> ('s, 'v) loader \<Rightarrow> ('s, 'v) world
    \<Rightarrow> ('s, 'v) world" where
  "cacheSet m q a ld w =
     (let w1 = localCacheSet m q a w;
          ex = Expire ld
      in if a = NoEntry_obj
         then (if \<not> cache_no_entry m then w1
               else cacheSet_cdb m q a (cache_no_entry_ex m) w1)
         else cacheSet_cdb m q a ex w1)"

definition cacheDel ::
  "('s, 'v) BECache \<Rightarrow> query \<Rightarrow> ('s, 'v) world \<Rightarrow> error option \<times> ('s, 'v) world" where
  "cacheDel m q w =
     call_Del Remote (cdb m) q
       (case local_cdb m of None \<Rightarrow> w | Some l \<Rightarrow> snd (call_Del Local l q w))"

definition cacheDelSpace ::
  "('s, 'v) BECache \<Rightarrow> string \<Rightarrow> ('s, 'v) world \<Rightarrow> error option \<times> ('s, 'v) world" where
  "cacheDelSpace m space w =
     call_DelSpaceData Remote (cdb m) space
       (case local_cdb m of None \<Rightarrow> w | Some l \<Rightarrow> snd (call_DelSpaceData Local l space w))"

definition loadDB ::
  "('s, 'v) BECache \<Rightarrow> query \<Rightarrow> ('s, 'v) loader \<Rightarrow> bool \<Rightarrow> ('s, 'v) world
    \<Rightarrow> ('v object \<times> error option) \<times> ('s, 'v) world" where
  "loadDB m q ld delCacheOnErr w =
     (case call_Load ld q w of
        ((a, err), w1) \<Rightarrow>
          (case err of
             None \<Rightarrow>
               if a = nil then ((nil, Some (New DbResultNil)), w1)
               else ((a, None), cacheSet m q a ld w1)
           | Some e \<Rightarrow>
               if e = ErrNoEntry then ((nil, Some ErrNoEntry), cacheSet m q NoEntry_obj ld w1)
               else
                 ((nil, Some (WithMessage e DbLoadFailed)),
                  (if delCacheOnErr then
                     (case call_Del Remote (cdb m) q w1 of
                        (None, w2) \<Rightarrow> w2
                      | (Some e', w2) \<Rightarrow> log_Warn (WithMessage e' (DelAfterLoadFailed q)) w2)
                   else w1))))"

definition query ::
  "('s, 'v) BECache \<Rightarrow> query \<Rightarrow> ('s, 'v) loader \<Rightarrow> ('s, 'v) world
    \<Rightarrow> ('v object \<times> error option) \<times> ('s, 'v) world" where
  "query m q ld w =
     (case cacheGet m q w of
        ((out, gerr), w1) \<Rightarrow>
          (case gerr of
             None \<Rightarrow> ((out, None), w1)
           | Some ge \<Rightarrow>
               if ge = NoEntry then ((out, Some NoEntry), w1)
               else
                 (case loadDB m q ld False w1 of
                    ((out', lerr), w2) \<Rightarrow>
                      (case lerr of
                         None \<Rightarrow> ((out', None), w2)
                       | Some le \<Rightarrow>
                           if ge \<noteq> ErrNoEntry
                           then ((nil, Some (WithMessage ge (ErrorText le))), w2)
                           else ((nil, Some le), w2)))))"

text \<open>
  \<^verbatim>\<open>getWithLoader\<close> hands a closure to the single-flight group and then turns what the
  group returns into the caller's result. \<open>shared\<close> is the \<^verbatim>\<open>interface{}\<close> the group hands
  to every caller: \<^verbatim>\<open>nil\<close>, the encoded bytes, or the \<^verbatim>\<open>reflect.Value\<close> of the result.
  \<open>getWithLoader_fn\<close> is the closure and \<open>getWithLoader_ret\<close> the code after \<^verbatim>\<open>sf.Do\<close>,
  which every caller runs on the shared pair. \<open>Do\<close> is the group for a call that finds no
  other call in flight under its key: it runs the closure. A failed type assertion panics,
  and so does the assignment of a value the destination cannot take.
\<close>

datatype 'v shared = S_nil | S_bytes bytes | S_value "'v object"

definition getWithLoader_fn ::
  "('s, 'v) BECache \<Rightarrow> 'v msgpack \<Rightarrow> query \<Rightarrow> ('s, 'v) loader \<Rightarrow> ('s, 'v) world
    \<Rightarrow> ('v shared \<times> error option) \<times> ('s, 'v) world" where
  "getWithLoader_fn m mp q ld w =
     (case query m q ld w of
        ((out, err), w1) \<Rightarrow>
          (case err of
             Some e \<Rightarrow> ((S_nil, Some e), w1)
           | None \<Rightarrow>
               if out = nil then ((S_nil, None), w1)
               else if deepcopy_result m
               then (case Encode mp out of (bs, e) \<Rightarrow> ((S_bytes bs, e), w1))
               else ((S_value out, None), w1)))"

definition Do :: "query \<Rightarrow> ('w \<Rightarrow> 'r \<times> 'w) \<Rightarrow> 'w \<Rightarrow> 'r \<times> 'w" where
  "Do k fn w = fn w"

definition getWithLoader_ret ::
  "('s, 'v) BECache \<Rightarrow> 'v msgpack \<Rightarrow> query \<Rightarrow> 'v dest \<Rightarrow> 'v shared \<times> error option
    \<Rightarrow> 'v object outcome" where
  "getWithLoader_ret m mp q dst r =
     (case r of
        (out, Some e) \<Rightarrow>
          Failed (WithMessage (if e = NoEntry then ErrNoEntry else e) (LoadFailed q))
      | (S_nil, None) \<Rightarrow> Failed (New NilNotHandled)
      | (S_bytes bs, None) \<Rightarrow>
          if deepcopy_result m
          then (case Decode mp bs dst of Inl e \<Rightarrow> Failed e | Inr v \<Rightarrow> Done v)
          else Panicked
      | (S_value v, None) \<Rightarrow>
          if deepcopy_result m then Panicked
          else if dst v then Done v
          else Panicked)"

definition getWithLoader ::
  "('s, 'v) BECache \<Rightarrow> 'v msgpack \<Rightarrow> query \<Rightarrow> 'v dest \<Rightarrow> ('s, 'v) loader \<Rightarrow> ('s, 'v) world
    \<Rightarrow> 'v object outcome \<times> ('s, 'v) world" where
  "getWithLoader m mp q dst ld w =
     (case Do q (getWithLoader_fn m mp q ld) w of
        (r, w1) \<Rightarrow> (getWithLoader_ret m mp q dst r, w1))"

text \<open>
  \<^verbatim>\<open>doFnWithContext\<close> runs \<open>fn\<close> in the caller when the context is \<^verbatim>\<open>nil\<close>. Otherwise it
  starts \<open>fn\<close> in a goroutine and selects between the goroutine's notification and
  \<^verbatim>\<open>ctx.Done()\<close>. The model is sequential: a context is the signal together with the case
  the \<^verbatim>\<open>select\<close> takes in this run (\<open>Done_first\<close> when \<^verbatim>\<open>ctx.Done()\<close> is taken), and the
  world returned is the one the goroutine leaves when \<open>fn\<close> has finished, whichever case
  was taken, since nothing stops the goroutine.
\<close>

record Context =
  Done_first :: bool
  Err :: error

definition doFnWithContext ::
  "Context option \<Rightarrow> ('w \<Rightarrow> 'a outcome \<times> 'w) \<Rightarrow> 'w \<Rightarrow> 'a outcome \<times> 'w" where
  "doFnWithContext ctx fn w =
     (case ctx of
        None \<Rightarrow> fn w
      | Some c \<Rightarrow>
          (case fn w of (r, w1) \<Rightarrow> (if Done_first c then Failed (Err c) else r, w1)))"

definition GetWithLoader ::
  "('s, 'v) BECache \<Rightarrow> 'v msgpack \<Rightarrow> Context option \<Rightarrow> query \<Rightarrow> 'v dest
    \<Rightarrow> ('s, 'v) loader \<Rightarrow> ('s, 'v) world \<Rightarrow> 'v object outcome \<times> ('s, 'v) world" where
  "GetWithLoader m mp ctx q dst ld w = doFnWithContext ctx (getWithLoader m mp q dst ld) w"

definition GetWithContext ::
  "('s, 'v) BECache \<Rightarrow> 'v msgpack \<Rightarrow> Context option \<Rightarrow> query \<Rightarrow> 'v dest
    \<Rightarrow> ('s, 'v) world \<Rightarrow> 'v object outcome \<times> ('s, 'v) world" where
  "GetWithContext m mp ctx q dst w =
     (case getLoader m (Space q) of
        None \<Rightarrow> (Failed (NewSimple (LoaderNotRegistered (Space q))), w)
      | Some space \<Rightarrow> GetWithLoader m mp ctx q dst space w)"

definition Get_BECache ::
  "('s, 'v) BECache \<Rightarrow> 'v msgpack \<Rightarrow> query \<Rightarrow> 'v dest
    \<Rightarrow> ('s, 'v) world \<Rightarrow> 'v object outcome \<times> ('s, 'v) world" where
  "Get_BECache m mp q dst w = GetWithContext m mp None q dst w"

definition ret :: "error option \<Rightarrow> unit outcome" where
  "ret e = (case e of None \<Rightarrow> Done () | Some e' \<Rightarrow> Failed e')"

definition DelData ::
  "('s, 'v) BECache \<Rightarrow> query \<Rightarrow> ('s, 'v) world \<Rightarrow> unit outcome \<times> ('s, 'v) world" where
  "DelData m q w = (case cacheDel m q w of (e, w1) \<Rightarrow> (ret e, w1))"

definition DelDataWithContext ::
  "('s, 'v) BECache \<Rightarrow> Context option \<Rightarrow> query \<Rightarrow> ('s, 'v) world
    \<Rightarrow> unit outcome \<times> ('s, 'v) world" where
  "DelDataWithContext m ctx q w =
     doFnWithContext ctx (\<lambda>w'. case cacheDel m q w' of (e, w1) \<Rightarrow> (ret e, w1)) w"

definition DelSpaceData_BECache ::
  "('s, 'v) BECache \<Rightarrow> string \<Rightarrow> ('s, 'v) world \<Rightarrow> unit outcome \<times> ('s, 'v) world" where
  "DelSpaceData_BECache m space w = (case cacheDelSpace m space w of (e, w1) \<Rightarrow> (ret e, w1))"

definition DelSpaceDataWithContext ::
  "('s, 'v) BECache \<Rightarrow> Context option \<Rightarrow> string \<Rightarrow> ('s, 'v) world
    \<Rightarrow> unit outcome \<times> ('s, 'v) world" where
  "DelSpaceDataWithContext m ctx space w =
     doFnWithContext ctx (\<lambda>w'. case cacheDelSpace m space w' of (e, w1) \<Rightarrow> (ret e, w1)) w"

section \<open>The orchestrator of src/unnamed/part_000\<close>

text \<open>
  The second source file is another version of the same orchestrator: no negative marker
  (a \<^verbatim>\<open>nil\<close> value stands for the empty entry, \<^verbatim>\<open>NilData\<close> for its error), no copy mode,
  a delete of the cached entry whenever the loader fails, and a call of \<^verbatim>\<open>query.Check()\<close>
  at the head of every public operation that takes a query. Its definitions carry the
  suffix \<open>_p0\<close>.
\<close>

record ('s, 'v) BECache_p0 =
  cdb_p0 :: "('s, 'v) cachedb"
  local_cdb_p0 :: "('s, 'v) cachedb option"
  local_cdb_ex_p0 :: duration
  loaders_p0 :: "string \<rightharpoonup> ('s, 'v) loader"
  cache_nil_p0 :: bool

definition New_p0 :: "('s, 'v) cachedb \<Rightarrow> ('s, 'v) BECache_p0" where
  "New_p0 c =
     \<lparr>cdb_p0 = c, local_cdb_p0 = None, local_cdb_ex_p0 = 0, loaders_p0 = Map.empty,
      cache_nil_p0 = True\<rparr>"

text \<open>
  Modelled from the spec: \<^verbatim>\<open>Query.Check\<close>, whose body is in no source file at hand. The
  spec has a query "validated non-empty before use (fails fast otherwise)", and the
  callers use no result of the call, so the check panics when the namespace or the
  identifier is empty and returns otherwise.
\<close>

definition Check :: "query \<Rightarrow> unit outcome" where
  "Check q = (if Space q = [] \<or> Key q = [] then Panicked else Done ())"

definition getLoader_p0 :: "('s, 'v) BECache_p0 \<Rightarrow> string \<Rightarrow> ('s, 'v) loader option" where
  "getLoader_p0 m space = loaders_p0 m space"

definition localCacheSet_p0 ::
  "('s, 'v) BECache_p0 \<Rightarrow> query \<Rightarrow> 'v object \<Rightarrow> ('s, 'v) world \<Rightarrow> ('s, 'v) world" where
  "localCacheSet_p0 m q a w =
     (case local_cdb_p0 m of
        None \<Rightarrow> w
      | Some l \<Rightarrow> snd (call_Set Local l q a (local_cdb_ex_p0 m) w))"

definition cacheGet_local_p0 ::
  "('s, 'v) BECache_p0 \<Rightarrow> query \<Rightarrow> ('s, 'v) world
    \<Rightarrow> ('v object \<times> error option) option \<times> ('s, 'v) world" where
  "cacheGet_local_p0 m q w =
     (case local_cdb_p0 m of
        None \<Rightarrow> (None, w)
      | Some l \<Rightarrow>
          (case call_Get Local l q w of
             ((out, err), w1) \<Rightarrow>
               if err = None \<or> err = Some NilData then (Some (out, err), w1) else (None, w1)))"

definition cacheGet_cdb_p0 ::
  "('s, 'v) BECache_p0 \<Rightarrow> query \<Rightarrow> ('s, 'v) world
    \<Rightarrow> ('v object \<times> error option) \<times> ('s, 'v) world" where
  "cacheGet_cdb_p0 m q w =
     (case call_Get Remote (cdb_p0 m) q w of
        ((out, err), w1) \<Rightarrow>
          (case err of
             None \<Rightarrow> ((out, None), localCacheSet_p0 m q out w1)
           | Some e \<Rightarrow>
               if e = NilData then ((nil, Some NilData), localCacheSet_p0 m q nil w1)
               else if e = ErrNoEntry then ((out, Some ErrNoEntry), w1)
               else ((nil, Some (WithMessage e CacheLoadFailed)), w1)))"

definition cacheGet_p0 ::
  "('s, 'v) BECache_p0 \<Rightarrow> query \<Rightarrow> ('s, 'v) world
    \<Rightarrow> ('v object \<times> error option) \<times> ('s, 'v) world" where
  "cacheGet_p0 m q w =
     (case cacheGet_local_p0 m q w of
        (Some r, w1) \<Rightarrow> (r, w1)
      | (None, w1) \<Rightarrow> cacheGet_cdb_p0 m q w1)"

definition cacheSet_p0 ::
  "('s, 'v) BECache_p0 \<Rightarrow> query \<Rightarrow> 'v object \<Rightarrow> ('s, 'v) loader \<Rightarrow> ('s, 'v) world
    \<Rightarrow> ('s, 'v) world" where
  "cacheSet_p0 m q a ld w =
     (let w1 = localCacheSet_p0 m q a w
      in if a = nil \<and> \<not> cache_nil_p0 m then w1
         else
           (case call_Set Remote (cdb_p0 m) q a (Expire ld) w1 of
              (None, w2) \<Rightarrow> w2
            | (Some e, w2) \<Rightarrow> log_Warn (WithMessage e (CacheSetFailed q)) w2))"

definition cacheDel_p0 ::
  "('s, 'v) BECache_p0 \<Rightarrow> query \<Rightarrow> ('s, 'v) world \<Rightarrow> error option \<times> ('s, 'v) world" where
  "cacheDel_p0 m q w =
     call_Del Remote (cdb_p0 m) q
       (case local_cdb_p0 m of None \<Rightarrow> w | Some l \<Rightarrow> snd (call_Del Local l q w))"

definition cacheDelSpace_p0 ::
  "('s, 'v) BECache_p0 \<Rightarrow> string \<Rightarrow> ('s, 'v) world \<Rightarrow> error option \<times> ('s, 'v) world" where
  "cacheDelSpace_p0 m space w =
     call_DelSpaceData Remote (cdb_p0 m) space
       (case local_cdb_p0 m of None \<Rightarrow> w | Some l \<Rightarrow> snd (call_DelSpaceData Local l space w))"

definition loadDB_p0 ::
  "('s, 'v) BECache_p0 \<Rightarrow> query \<Rightarrow> ('s, 'v) loader \<Rightarrow> ('s, 'v) world
    \<Rightarrow> ('v object \<times> error option) \<times> ('s, 'v) world" where
  "loadDB_p0 m q ld w =
     (case call_Load ld q w of
        ((a, err), w1) \<Rightarrow>
          (case err of
             Some e \<Rightarrow>
               ((nil, Some (WithMessage e DbLoadFailed)),
                (case call_Del Remote (cdb_p0 m) q w1 of
                   (None, w2) \<Rightarrow> w2
                 | (Some e', w2) \<Rightarrow> log_Warn (WithMessage e' (DelAfterLoadFailed q)) w2))
           | None \<Rightarrow> ((a, None), cacheSet_p0 m q a ld w1)))"

definition query_p0 ::
  "('s, 'v) BECache_p0 \<Rightarrow> query \<Rightarrow> ('s, 'v) loader \<Rightarrow> ('s, 'v) world
    \<Rightarrow> ('v object \<times> error option) \<times> ('s, 'v) world" where
  "query_p0 m q ld w =
     (case cacheGet_p0 m q w of
        ((out, gerr), w1) \<Rightarrow>
          if gerr = None \<or> gerr = Some NilData then ((out, gerr), w1)
          else
            (case loadDB_p0 m q ld w1 of
               ((out', lerr), w2) \<Rightarrow>
                 if lerr = None \<or> lerr = Some NilData then ((out', lerr), w2)
                 else if gerr \<noteq> Some ErrNoEntry
                 then
                   (case (gerr, lerr) of
                      (Some ge, Some le) \<Rightarrow> ((nil, Some (WithMessage ge (ErrorText le))), w2)
                    | _ \<Rightarrow> ((nil, lerr), w2))
                 else ((nil, lerr), w2)))"

definition getWithLoader_p0 ::
  "('s, 'v) BECache_p0 \<Rightarrow> query \<Rightarrow> 'v dest \<Rightarrow> ('s, 'v) loader \<Rightarrow> ('s, 'v) world
    \<Rightarrow> 'v object outcome \<times> ('s, 'v) world" where
  "getWithLoader_p0 m q dst ld w =
     (case Do q (query_p0 m q ld) w of
        ((out, err), w1) \<Rightarrow>
          (case err of
             Some e \<Rightarrow>
               if e = NilData then (Failed NilData, w1)
               else (Failed (WithMessage e (LoadFailed q)), w1)
           | None \<Rightarrow>
               if out = nil then (Failed NilData, w1)
               else if dst out then (Done out, w1)
               else (Panicked, w1)))"

definition GetWithLoader_p0 ::
  "('s, 'v) BECache_p0 \<Rightarrow> Context option \<Rightarrow> query \<Rightarrow> 'v dest \<Rightarrow> ('s, 'v) loader
    \<Rightarrow> ('s, 'v) world \<Rightarrow> 'v object outcome \<times> ('s, 'v) world" where
  "GetWithLoader_p0 m ctx q dst ld w =
     (case Check q of
        Done u \<Rightarrow>
          (case ctx of
             None \<Rightarrow> getWithLoader_p0 m q dst ld w
           | Some c \<Rightarrow>
               (case getWithLoader_p0 m q dst ld w of
                  (r, w1) \<Rightarrow> (if Done_first c then Failed (Err c) else r, w1)))
      | Failed e \<Rightarrow> (Failed e, w)
      | Panicked \<Rightarrow> (Panicked, w))"

definition GetWithContext_p0 ::
  "('s, 'v) BECache_p0 \<Rightarrow> Context option \<Rightarrow> query \<Rightarrow> 'v dest \<Rightarrow> ('s, 'v) world
    \<Rightarrow> 'v object outcome \<times> ('s, 'v) world" where
  "GetWithContext_p0 m ctx q dst w =
     (case Check q of
        Done u \<Rightarrow>
          (case getLoader_p0 m (Space q) of
             None \<Rightarrow> (Failed (NewSimple (LoaderNotRegistered (Space q))), w)
           | Some space \<Rightarrow> GetWithLoader_p0 m ctx q dst space w)
      | Failed e \<Rightarrow> (Failed e, w)
      | Panicked \<Rightarrow> (Panicked, w))"

definition Get_p0 ::
  "('s, 'v) BECache_p0 \<Rightarrow> query \<Rightarrow> 'v dest \<Rightarrow> ('s, 'v) world
    \<Rightarrow> 'v object outcome \<times> ('s, 'v) world" where
  "Get_p0 m q dst w = GetWithContext_p0 m None q dst w"

definition DelData_p0 ::
  "('s, 'v) BECache_p0 \<Rightarrow> query \<Rightarrow> ('s, 'v) world \<Rightarrow> unit outcome \<times> ('s, 'v) world" where
  "DelData_p0 m q w =
     (case Check q of
        Done u \<Rightarrow> (case cacheDel_p0 m q w of (e, w1) \<Rightarrow> (ret e, w1))
      | Failed e \<Rightarrow> (Failed e, w)
      | Panicked \<Rightarrow> (Panicked, w))"

definition DelSpaceData_p0 ::
  "('s, 'v) BECache_p0 \<Rightarrow> string \<Rightarrow> ('s, 'v) world \<Rightarrow> unit outcome \<times> ('s, 'v) world" where
  "DelSpaceData_p0 m space w = (case cacheDelSpace_p0 m space w of (e, w1) \<Rightarrow> (ret e, w1))"

section \<open>Vocabulary of the statements\<close>

text \<open>
  \<open>quiet c\<close> is the backend \<open>c\<close> with the error of every \<^verbatim>\<open>Set\<close> replaced by \<^verbatim>\<open>nil\<close> and its
  effect on the state kept; \<open>quiet_tiers m\<close> does this to both tiers of \<open>m\<close>. \<open>is_Warn\<close>
  picks the warnings out of a trace. \<open>local_gets\<close> and \<open>local_sets\<close> are the traces of a
  read of and of a write to the local tier: one event when the tier is configured, none
  otherwise.
\<close>

definition quiet :: "('s, 'v) cachedb \<Rightarrow> ('s, 'v) cachedb" where
  "quiet c = c\<lparr>Set := \<lambda>q a ex s. (None, snd (Set c q a ex s))\<rparr>"

definition quiet_tiers :: "('s, 'v) BECache \<Rightarrow> ('s, 'v) BECache" where
  "quiet_tiers m = m\<lparr>cdb := quiet (cdb m), local_cdb := map_option quiet (local_cdb m)\<rparr>"

definition is_Warn :: "'v event \<Rightarrow> bool" where
  "is_Warn ev = (case ev of EWarn e \<Rightarrow> True | _ \<Rightarrow> False)"

definition local_gets :: "('s, 'v) BECache \<Rightarrow> query \<Rightarrow> 'v event list" where
  "local_gets m q = (case local_cdb m of None \<Rightarrow> [] | Some l \<Rightarrow> [EGet Local q])"

definition local_sets :: "('s, 'v) BECache \<Rightarrow> query \<Rightarrow> 'v object \<Rightarrow> 'v event list" where
  "local_sets m q a =
     (case local_cdb m of None \<Rightarrow> [] | Some l \<Rightarrow> [ESet Local q a (local_cdb_ex m)])"

text \<open>
  Two worlds are the same but for warnings when the external state is the same and the
  traces differ in the warnings logged only.
\<close>

definition same_but_warnings :: "('s, 'v) world \<Rightarrow> ('s, 'v) world \<Rightarrow> bool" where
  "same_but_warnings w w' =
     (ext w = ext w'
      \<and> filter (\<lambda>ev. \<not> is_Warn ev) (trace w) = filter (\<lambda>ev. \<not> is_Warn ev) (trace w'))"

text \<open>
  The outcome the orchestrator gives for a key confirmed absent: \<^verbatim>\<open>ErrNoEntry\<close> wrapped
  with the path of the query, as \<^verbatim>\<open>getWithLoader\<close> builds it.
\<close>

definition EntryNotFound :: "query \<Rightarrow> 'a outcome" where
  "EntryNotFound q = Failed (WithMessage ErrNoEntry (LoadFailed q))"

text \<open>
  The outcome for a loader that reports success with a \<^verbatim>\<open>nil\<close> value: the error \<^verbatim>\<open>loadDB\<close>
  creates for it, wrapped with the path of the query.
\<close>

definition InvalidLoaderResult :: "query \<Rightarrow> 'a outcome" where
  "InvalidLoaderResult q = Failed (WithMessage (New DbResultNil) (LoadFailed q))"

section \<open>Capabilities with fixed answers\<close>

text \<open>
  Backends, loaders and codecs that answer every call the same way and keep no state, a
  destination every value can be assigned to, a query and a starting world: the concrete
  inputs at which the statements below are evaluated.
\<close>

definition fixed_cdb :: "'v object \<times> error option \<Rightarrow> error option \<Rightarrow> (unit, 'v) cachedb" where
  "fixed_cdb r e =
     \<lparr>Get = \<lambda>q s. (r, s), Set = \<lambda>q a ex s. (e, s), Del = \<lambda>q s. (None, s),
      DelSpaceData = \<lambda>space s. (None, s)\<rparr>"

definition fixed_loader ::
  "string \<Rightarrow> 'v object \<times> error option \<Rightarrow> duration \<Rightarrow> (unit, 'v) loader" where
  "fixed_loader n r ex = \<lparr>Name = n, Load = \<lambda>q s. (r, s), Expire = ex\<rparr>"

definition fixed_msgpack :: "bytes \<times> error option \<Rightarrow> error + 'v object \<Rightarrow> 'v msgpack" where
  "fixed_msgpack r d = \<lparr>Encode = \<lambda>a. r, Decode = \<lambda>bs dst. d\<rparr>"

definition any_dest :: "'v dest" where
  "any_dest v = True"

definition user42 :: query where
  "user42 = \<lparr>Space = ''user'', Key = ''42''\<rparr>"

definition start :: "(unit, nat) world" where
  "start = \<lparr>ext = (), trace = []\<rparr>"

section \<open>Traces of the capability calls\<close>

lemma call_Get_trace: "call_Get t c q w = (r, w1) \<Longrightarrow> trace w1 = trace w @ [EGet t q]"
  by (auto simp: call_Get_def split: prod.splits)

lemma call_Load_trace: "call_Load ld q w = (r, w1) \<Longrightarrow> trace w1 = trace w @ [ELoad q]"
  by (auto simp: call_Load_def split: prod.splits)

lemma call_Set_trace:
  "call_Set t c q a ex w = (e, w1) \<Longrightarrow> trace w1 = trace w @ [ESet t q a ex]"
  by (auto simp: call_Set_def split: prod.splits)

lemma cacheGet_local_trace:
  "cacheGet_local m q w = (r, w1) \<Longrightarrow> trace w1 = trace w @ local_gets m q"
  by (auto simp: cacheGet_local_def local_gets_def dest: call_Get_trace
      split: option.splits prod.splits if_splits)

lemma localCacheSet_trace: "trace (localCacheSet m q a w) = trace w @ local_sets m q a"
  by (simp add: localCacheSet_def local_sets_def call_Set_def split: option.splits prod.splits)

lemma cacheSet_cdb_trace:
  "\<exists>ws. trace (cacheSet_cdb m q a ex w) = trace w @ ESet Remote q a ex # ws
        \<and> list_all is_Warn ws"
  by (auto simp: cacheSet_cdb_def call_Set_def log_Warn_def is_Warn_def
      split: option.splits prod.splits)

lemma miss_trace:
  assumes "cacheGet_local m q w = (None, w1)"
      and "call_Get Remote (cdb m) q w1 = (r, w2)"
  shows "trace w2 = trace w @ local_gets m q @ [EGet Remote q]"
  using assms by (simp add: cacheGet_local_trace call_Get_trace)

section \<open>The read-through algorithm after a miss\<close>

text \<open>
  When the local block falls through and the remote tier answers with an error other
  than the negative marker, \<open>query\<close> is \<open>loadDB\<close> followed by the choice between the
  loader's error and the combined one.
\<close>

lemma query_miss:
  assumes "cacheGet_local m q w = (None, w1)"
      and "call_Get Remote (cdb m) q w1 = ((out, Some ge), w2)"
      and "ge \<noteq> NoEntry"
  shows "query m q ld w =
     (case loadDB m q ld False w2 of
        ((out', lerr), w3) \<Rightarrow>
          (case lerr of
             None \<Rightarrow> ((out', None), w3)
           | Some le \<Rightarrow>
               if ge = ErrNoEntry then ((nil, Some le), w3)
               else
                 ((nil, Some (WithMessage (WithMessage ge CacheLoadFailed) (ErrorText le))),
                  w3)))"
  using assms
  by (simp add: query_def cacheGet_def cacheGet_cdb_def split: prod.splits option.splits)

text \<open>
  Every Get-family call is \<open>getWithLoader\<close>: \<^verbatim>\<open>GetWithLoader\<close> with a \<^verbatim>\<open>nil\<close> context, and
  \<^verbatim>\<open>Get\<close> for a namespace with a registered loader, are \<open>getWithLoader\<close> itself; with a
  context whose \<^verbatim>\<open>select\<close> takes the notification of the goroutine the result is the same.
  The statements below are about \<open>getWithLoader\<close> and the functions it calls.
\<close>

lemma GetWithLoader_nil: "GetWithLoader m mp None q dst ld w = getWithLoader m mp q dst ld w"
  by (simp add: GetWithLoader_def doFnWithContext_def)

lemma GetWithLoader_done:
  "\<not> Done_first c \<Longrightarrow> GetWithLoader m mp (Some c) q dst ld w = getWithLoader m mp q dst ld w"
  by (simp add: GetWithLoader_def doFnWithContext_def split: prod.splits)

lemma unassignable_value_panics:
  "\<not> deepcopy_result m \<Longrightarrow> \<not> dst v
    \<Longrightarrow> getWithLoader_ret m mp q dst (S_value v, None) = Panicked"
  by (simp add: getWithLoader_ret_def)

lemma Get_registered:
  "loaders m (Space q) = Some ld \<Longrightarrow> Get_BECache m mp q dst w = getWithLoader m mp q dst ld w"
  by (simp add: Get_BECache_def GetWithContext_def getLoader_def GetWithLoader_nil)

section \<open>Failures of the loader\<close>

text \<open>
  C4. The local block has fallen through, the remote tier has answered with an error
  \<open>ge\<close> that is not the negative marker, and the loader fails with an error \<open>le\<close> other
  than \<^verbatim>\<open>ErrNoEntry\<close>. If \<open>ge\<close> is the no-record error, the call returns the loader's
  failure alone (wrapped by \<^verbatim>\<open>loadDB\<close> and with the path). Otherwise it returns one error
  whose inner error is the failure of the cache read, with the text of the loader's
  failure as its message. Nothing is written or deleted: the world is the one the loader
  left.
\<close>

theorem load_failure_reported:
  assumes "cacheGet_local m q w = (None, w1)"
      and "call_Get Remote (cdb m) q w1 = ((out, Some ge), w2)"
      and "ge \<noteq> NoEntry"
      and "call_Load ld q w2 = ((a, Some le), w3)"
      and "le \<noteq> ErrNoEntry"
  shows "(ge = ErrNoEntry \<longrightarrow>
            getWithLoader m mp q dst ld w =
              (Failed (WithMessage (WithMessage le DbLoadFailed) (LoadFailed q)), w3))
       \<and> (ge \<noteq> ErrNoEntry \<longrightarrow>
            getWithLoader m mp q dst ld w =
              (Failed (WithMessage
                 (WithMessage (WithMessage ge CacheLoadFailed)
                    (ErrorText (WithMessage le DbLoadFailed)))
                 (LoadFailed q)), w3))"
  using assms(4,5)
  by (simp add: getWithLoader_def Do_def getWithLoader_fn_def getWithLoader_ret_def
      query_miss [OF assms(1,2,3)] loadDB_def)

theorem load_failure_reported_witness:
  "getWithLoader (New_BECache (fixed_cdb (nil, Some ErrNoEntry) None))
     (fixed_msgpack ([], None) (Inr nil)) user42 any_dest
     (fixed_loader ''user'' (nil, Some (External ''db'')) 60) start
   = (Failed (WithMessage (WithMessage (External ''db'') DbLoadFailed) (LoadFailed user42)),
      \<lparr>ext = (), trace = [EGet Remote user42, ELoad user42]\<rparr>)
   \<and> getWithLoader (New_BECache (fixed_cdb (nil, Some (External ''down'')) None))
     (fixed_msgpack ([], None) (Inr nil)) user42 any_dest
     (fixed_loader ''user'' (nil, Some (External ''db'')) 60) start
   = (Failed (WithMessage
        (WithMessage (WithMessage (External ''down'') CacheLoadFailed)
           (ErrorText (WithMessage (External ''db'') DbLoadFailed)))
        (LoadFailed user42)),
      \<lparr>ext = (), trace = [EGet Remote user42, ELoad user42]\<rparr>)"
proof -
  let ?ld = "fixed_loader ''user'' (nil, Some (External ''db'')) 60 :: (unit, nat) loader"
  let ?w1 = "\<lparr>ext = (), trace = [EGet Remote user42]\<rparr> :: (unit, nat) world"
  let ?w2 = "\<lparr>ext = (), trace = [EGet Remote user42, ELoad user42]\<rparr> :: (unit, nat) world"
  have l: "cacheGet_local (New_BECache (fixed_cdb r None)) user42 start = (None, start)"
    for r :: "nat object \<times> error option"
    by (simp add: cacheGet_local_def New_BECache_def)
  have g: "call_Get Remote (cdb (New_BECache (fixed_cdb (nil, Some e) None))) user42 start
      = ((nil, Some e), ?w1)" for e
    by (simp add: call_Get_def New_BECache_def fixed_cdb_def start_def)
  have d: "call_Load ?ld user42 ?w1 = ((nil, Some (External ''db'')), ?w2)"
    by (simp add: call_Load_def fixed_loader_def)
  show ?thesis
    using load_failure_reported [OF l g _ d, of ErrNoEntry "fixed_msgpack ([], None) (Inr nil)"]
      load_failure_reported [OF l g _ d, of "External ''down''" "fixed_msgpack ([], None) (Inr nil)"]
    by simp
qed

section \<open>A loader that returns no value and no error\<close>

text \<open>
  C5, as amended. The local block has fallen through, the remote tier has answered with
  an error \<open>ge\<close> that is not the negative marker, and the loader returns \<^verbatim>\<open>nil\<close> with a
  \<^verbatim>\<open>nil\<close> error. The call fails and writes to no tier: the calls made are the reads and
  the load. When \<open>ge\<close> is the no-record error the failure is the invalid-result error with
  the path; when \<open>ge\<close> is a failure of the backend it is the combined error, the failure
  of the cache read inside and the text of the invalid-result error as its message.
\<close>

theorem null_load_fails:
  assumes "cacheGet_local m q w = (None, w1)"
      and "call_Get Remote (cdb m) q w1 = ((out, Some ge), w2)"
      and "ge \<noteq> NoEntry"
      and "call_Load ld q w2 = ((nil, None), w3)"
  shows "(ge = ErrNoEntry \<longrightarrow> getWithLoader m mp q dst ld w = (InvalidLoaderResult q, w3))
       \<and> (ge \<noteq> ErrNoEntry \<longrightarrow>
            getWithLoader m mp q dst ld w =
              (Failed (WithMessage
                 (WithMessage (WithMessage ge CacheLoadFailed) (ErrorText (New DbResultNil)))
                 (LoadFailed q)), w3))
       \<and> trace w3 = trace w @ local_gets m q @ [EGet Remote q, ELoad q]"
  using assms(4) miss_trace [OF assms(1,2)] call_Load_trace [OF assms(4)]
  by (simp add: getWithLoader_def Do_def getWithLoader_fn_def getWithLoader_ret_def
      query_miss [OF assms(1,2,3)] loadDB_def InvalidLoaderResult_def)

theorem null_load_fails_witness:
  "getWithLoader (New_BECache (fixed_cdb (nil, Some ErrNoEntry) None))
     (fixed_msgpack ([], None) (Inr nil)) user42 any_dest (fixed_loader ''user'' (nil, None) 60) start
   = (InvalidLoaderResult user42, \<lparr>ext = (), trace = [EGet Remote user42, ELoad user42]\<rparr>)
   \<and> getWithLoader (New_BECache (fixed_cdb (nil, Some (External ''down'')) None))
     (fixed_msgpack ([], None) (Inr nil)) user42 any_dest (fixed_loader ''user'' (nil, None) 60) start
   = (Failed (WithMessage
        (WithMessage (WithMessage (External ''down'') CacheLoadFailed)
           (ErrorText (New DbResultNil)))
        (LoadFailed user42)),
      \<lparr>ext = (), trace = [EGet Remote user42, ELoad user42]\<rparr>)"
proof -
  let ?ld = "fixed_loader ''user'' (nil, None) 60 :: (unit, nat) loader"
  let ?w1 = "\<lparr>ext = (), trace = [EGet Remote user42]\<rparr> :: (unit, nat) world"
  let ?w2 = "\<lparr>ext = (), trace = [EGet Remote user42, ELoad user42]\<rparr> :: (unit, nat) world"
  have l: "cacheGet_local (New_BECache (fixed_cdb r None)) user42 start = (None, start)"
    for r :: "nat object \<times> error option"
    by (simp add: cacheGet_local_def New_BECache_def)
  have g: "call_Get Remote (cdb (New_BECache (fixed_cdb (nil, Some e) None))) user42 start
      = ((nil, Some e), ?w1)" for e
    by (simp add: call_Get_def New_BECache_def fixed_cdb_def start_def)
  have d: "call_Load ?ld user42 ?w1 = ((nil, None), ?w2)"
    by (simp add: call_Load_def fixed_loader_def)
  show ?thesis
    using null_load_fails [OF l g _ d, of ErrNoEntry "fixed_msgpack ([], None) (Inr nil)"]
      null_load_fails [OF l g _ d, of "External ''down''" "fixed_msgpack ([], None) (Inr nil)"]
    by simp
qed

text \<open>
  With the remote tier failing to read, the outcome of the call is not the invalid-result
  error, although the loader has returned \<^verbatim>\<open>nil\<close> with a \<^verbatim>\<open>nil\<close> error.
\<close>

theorem null_load_degraded_counterexample:
  "Load (fixed_loader ''user'' (nil, None) 60) user42 () = ((nil, None), ())
   \<and> fst (getWithLoader (New_BECache (fixed_cdb (nil, Some (External ''down'')) None))
       (fixed_msgpack ([], None) (Inr nil)) user42 any_dest (fixed_loader ''user'' (nil, None) 60) start)
     \<noteq> (InvalidLoaderResult user42 :: nat object outcome)"
  by (simp add: New_BECache_def fixed_cdb_def fixed_loader_def getWithLoader_def Do_def
      getWithLoader_fn_def getWithLoader_ret_def query_def cacheGet_def cacheGet_local_def
      cacheGet_cdb_def call_Get_def call_Load_def loadDB_def start_def InvalidLoaderResult_def)

section \<open>The order of the tiers\<close>

lemma getWithLoader_world: "snd (getWithLoader m mp q dst ld w) = snd (query m q ld w)"
  by (simp add: getWithLoader_def Do_def getWithLoader_fn_def split: prod.splits option.splits)

lemma query_local_hit:
  assumes "local_cdb m = Some l"
      and "call_Get Local l q w = ((out, err), w1)"
      and "err = None \<or> err = Some NoEntry"
  shows "query m q ld w = ((out, err), w1)"
  using assms by (auto simp: query_def cacheGet_def cacheGet_local_def)

lemma query_remote_hit:
  assumes "cacheGet_local m q w = (None, w1)"
      and "call_Get Remote (cdb m) q w1 = ((out, None), w2)"
  shows "query m q ld w = ((out, None), localCacheSet m q out w2)"
  using assms by (simp add: query_def cacheGet_def cacheGet_cdb_def)

lemma query_remote_marker:
  assumes "cacheGet_local m q w = (None, w1)"
      and "call_Get Remote (cdb m) q w1 = ((out, Some NoEntry), w2)"
  shows "query m q ld w = ((nil, Some NoEntry), localCacheSet m q NoEntry_obj w2)"
  using assms by (simp add: query_def cacheGet_def cacheGet_cdb_def)

lemma cacheSet_trace_ext: "\<exists>evs. trace (cacheSet m q a ld w) = trace w @ evs"
  using cacheSet_cdb_trace [of m q a _ "localCacheSet m q a w"]
  by (auto simp: cacheSet_def Let_def localCacheSet_trace)

lemma loadDB_trace: "\<exists>evs. trace (snd (loadDB m q ld False w)) = trace w @ ELoad q # evs"
  using cacheSet_trace_ext [of m q _ ld "snd (call_Load ld q w)"]
  by (auto simp: loadDB_def call_Load_trace split: prod.splits option.splits) 

lemma query_falls_through:
  assumes "cacheGet_local m q w = (None, w1)"
      and "call_Get Remote (cdb m) q w1 = ((out, Some ge), w2)"
      and "ge \<noteq> NoEntry"
  shows "\<exists>evs. trace (snd (query m q ld w)) = trace w2 @ ELoad q # evs"
  using loadDB_trace [of m q ld w2]
  by (auto simp: query_miss [OF assms] split: prod.splits option.splits)

text \<open>
  C2. A hit of the local tier, positive or negative, ends \<open>query\<close> with what the local
  tier returned, and the one call made is the read of the local tier: neither the remote
  tier nor the loader is consulted. When the local block falls through (no local tier, or
  a local read that is no hit), the remote tier is read next. A positive hit there is
  written to the local tier with \<open>local_cdb_ex\<close> and returned; a negative hit writes the
  marker to the local tier and returns the negative outcome; in both cases these are the
  only calls, so the loader is not consulted. Any other answer of the remote tier (the
  no-record error, a backend error) is followed by the call of the loader. Every
  Get-family call runs \<open>query\<close> through \<open>getWithLoader\<close>, which adds no call of its own.
\<close>

theorem tiers_in_order:
  "(\<forall>l out err w1.
      local_cdb m = Some l \<and> call_Get Local l q w = ((out, err), w1)
      \<and> (err = None \<or> err = Some NoEntry)
      \<longrightarrow> query m q ld w = ((out, err), w1) \<and> trace w1 = trace w @ [EGet Local q])
   \<and> (\<forall>w1 out err w2.
      cacheGet_local m q w = (None, w1) \<and> call_Get Remote (cdb m) q w1 = ((out, err), w2)
      \<longrightarrow> trace w2 = trace w @ local_gets m q @ [EGet Remote q]
        \<and> (err = None \<longrightarrow>
             query m q ld w = ((out, None), localCacheSet m q out w2)
             \<and> trace (localCacheSet m q out w2) = trace w2 @ local_sets m q out)
        \<and> (err = Some NoEntry \<longrightarrow>
             query m q ld w = ((nil, Some NoEntry), localCacheSet m q NoEntry_obj w2)
             \<and> trace (localCacheSet m q NoEntry_obj w2) = trace w2 @ local_sets m q NoEntry_obj)
        \<and> (err \<noteq> None \<and> err \<noteq> Some NoEntry \<longrightarrow>
             (\<exists>evs. trace (snd (query m q ld w)) = trace w2 @ ELoad q # evs)))
   \<and> snd (getWithLoader m mp q dst ld w) = snd (query m q ld w)"
proof (intro conjI allI impI)
  fix l out err w1
  assume h: "local_cdb m = Some l \<and> call_Get Local l q w = ((out, err), w1)
    \<and> (err = None \<or> err = Some NoEntry)"
  then show "query m q ld w = ((out, err), w1)" by (auto intro: query_local_hit)
  from h show "trace w1 = trace w @ [EGet Local q]" by (auto dest: call_Get_trace)
next
  fix w1 out err w2
  assume h: "cacheGet_local m q w = (None, w1) \<and> call_Get Remote (cdb m) q w1 = ((out, err), w2)"
  then show "trace w2 = trace w @ local_gets m q @ [EGet Remote q]"
    by (auto dest: miss_trace)
  { assume "err = None"
    with h show "query m q ld w = ((out, None), localCacheSet m q out w2)"
      by (auto intro: query_remote_hit)
    show "trace (localCacheSet m q out w2) = trace w2 @ local_sets m q out"
      by (rule localCacheSet_trace) }
  { assume "err = Some NoEntry"
    with h show "query m q ld w = ((nil, Some NoEntry), localCacheSet m q NoEntry_obj w2)"
      by (auto intro: query_remote_marker)
    show "trace (localCacheSet m q NoEntry_obj w2) = trace w2 @ local_sets m q NoEntry_obj"
      by (rule localCacheSet_trace) }
  { assume "err \<noteq> None \<and> err \<noteq> Some NoEntry"
    with h show "\<exists>evs. trace (snd (query m q ld w)) = trace w2 @ ELoad q # evs"
      by (auto intro: query_falls_through) }
next
  show "snd (getWithLoader m mp q dst ld w) = snd (query m q ld w)"
    by (rule getWithLoader_world)
qed

theorem tiers_in_order_witness:
  "query (New_BECache (fixed_cdb (nil, Some (External ''down'')) None)
            \<lparr>local_cdb := Some (fixed_cdb (Obj 7, None) None)\<rparr>)
     user42 (fixed_loader ''user'' (Obj 8, None) 60) start
   = ((Obj 7, None), \<lparr>ext = (), trace = [EGet Local user42]\<rparr>)
   \<and> query (New_BECache (fixed_cdb (Obj 7, None) None)
            \<lparr>local_cdb := Some (fixed_cdb (nil, Some ErrNoEntry) None)\<rparr>)
     user42 (fixed_loader ''user'' (Obj 8, None) 60) start
   = ((Obj 7, None),
      \<lparr>ext = (),
       trace = [EGet Local user42, EGet Remote user42, ESet Local user42 (Obj 7) 1000000000]\<rparr>)
   \<and> query (New_BECache (fixed_cdb (nil, Some NoEntry) None)
            \<lparr>local_cdb := Some (fixed_cdb (nil, Some ErrNoEntry) None)\<rparr>)
     user42 (fixed_loader ''user'' (Obj 8, None) 60) start
   = ((nil, Some NoEntry),
      \<lparr>ext = (),
       trace = [EGet Local user42, EGet Remote user42,
                ESet Local user42 NoEntry_obj 1000000000]\<rparr>)
   \<and> take 3 (trace (snd (query (New_BECache (fixed_cdb (nil, Some ErrNoEntry) None)
            \<lparr>local_cdb := Some (fixed_cdb (nil, Some ErrNoEntry) None)\<rparr>)
     user42 (fixed_loader ''user'' (Obj 8, None) 60) start)))
   = [EGet Local user42, EGet Remote user42, ELoad user42]"
proof -
  let ?miss = "fixed_cdb (nil, Some ErrNoEntry) None :: (unit, nat) cachedb"
  let ?ld = "fixed_loader ''user'' (Obj 8, None) 60 :: (unit, nat) loader"
  let ?mp = "fixed_msgpack ([], None) (Inr nil) :: nat msgpack"
  let ?m1 = "New_BECache (fixed_cdb (nil, Some (External ''down'')) None)
            \<lparr>local_cdb := Some (fixed_cdb (Obj 7, None) None)\<rparr> :: (unit, nat) BECache"
  let ?m2 = "\<lambda>r. New_BECache (fixed_cdb r None)\<lparr>local_cdb := Some ?miss\<rparr>"
  let ?w1 = "\<lparr>ext = (), trace = [EGet Local user42]\<rparr> :: (unit, nat) world"
  let ?w2 = "\<lparr>ext = (), trace = [EGet Local user42, EGet Remote user42]\<rparr> :: (unit, nat) world"
  have h1: "local_cdb ?m1 = Some (fixed_cdb (Obj 7, None) None)
      \<and> call_Get Local (fixed_cdb (Obj 7, None) None) user42 start = ((Obj 7, None), ?w1)
      \<and> (None = (None :: error option) \<or> None = Some NoEntry)"
    by (simp add: New_BECache_def call_Get_def fixed_cdb_def start_def)
  have l: "cacheGet_local (?m2 r) user42 start = (None, ?w1)" for r
    by (simp add: cacheGet_local_def New_BECache_def call_Get_def fixed_cdb_def start_def)
  have g: "call_Get Remote (cdb (?m2 r)) user42 ?w1 = (r, ?w2)" for r
    by (simp add: call_Get_def New_BECache_def fixed_cdb_def)
  have s: "localCacheSet (?m2 r) user42 a ?w2
      = \<lparr>ext = (), trace = [EGet Local user42, EGet Remote user42,
                            ESet Local user42 a 1000000000]\<rparr>" for r a
    by (simp add: localCacheSet_def call_Set_def New_BECache_def fixed_cdb_def
        DefaultLocalCacheExpire_def)
  note t1 = tiers_in_order [of ?m1 user42 start ?ld ?mp, THEN conjunct1, rule_format, OF h1]
  from tiers_in_order [of "?m2 (Obj 7, None)" user42 start ?ld ?mp, THEN conjunct2,
      THEN conjunct1, rule_format, OF conjI [OF l g]]
  have a: "query (?m2 (Obj 7, None)) user42 ?ld start
      = ((Obj 7, None), localCacheSet (?m2 (Obj 7, None)) user42 (Obj 7) ?w2)"
    by simp
  from tiers_in_order [of "?m2 (nil, Some NoEntry)" user42 start ?ld ?mp, THEN conjunct2,
      THEN conjunct1, rule_format, OF conjI [OF l g]]
  have b: "query (?m2 (nil, Some NoEntry)) user42 ?ld start
      = ((nil, Some NoEntry), localCacheSet (?m2 (nil, Some NoEntry)) user42 NoEntry_obj ?w2)"
    by simp
  from tiers_in_order [of "?m2 (nil, Some ErrNoEntry)" user42 start ?ld ?mp, THEN conjunct2,
      THEN conjunct1, rule_format, OF conjI [OF l g]]
  have c:
    "\<exists>evs. trace (snd (query (?m2 (nil, Some ErrNoEntry)) user42 ?ld start))
        = trace ?w2 @ ELoad user42 # evs"
    by simp
  from c have c': "take 3 (trace (snd (query (?m2 (nil, Some ErrNoEntry)) user42 ?ld start)))
      = [EGet Local user42, EGet Remote user42, ELoad user42]"
    by auto
  show ?thesis using t1 a b c' by (simp add: s)
qed

section \<open>Failed writes\<close>

lemma same_refl: "same_but_warnings w w"
  by (simp add: same_but_warnings_def)

lemma call_Get_quiet:
  assumes "same_but_warnings w w'"
  shows "fst (call_Get t (quiet c) q w') = fst (call_Get t c q w)
       \<and> same_but_warnings (snd (call_Get t c q w)) (snd (call_Get t (quiet c) q w'))"
  using assms
  by (simp add: call_Get_def quiet_def same_but_warnings_def is_Warn_def split: prod.splits)

lemma call_Set_quiet:
  assumes "same_but_warnings w w'"
  shows "same_but_warnings (snd (call_Set t c q a ex w)) (snd (call_Set t (quiet c) q a ex w'))"
  using assms
  by (simp add: call_Set_def quiet_def same_but_warnings_def is_Warn_def split: prod.splits)

lemma call_Load_same:
  assumes "same_but_warnings w w'"
  shows "fst (call_Load ld q w') = fst (call_Load ld q w)
       \<and> same_but_warnings (snd (call_Load ld q w)) (snd (call_Load ld q w'))"
  using assms
  by (simp add: call_Load_def same_but_warnings_def is_Warn_def split: prod.splits)

lemma log_Warn_same:
  "same_but_warnings w w' \<Longrightarrow> same_but_warnings (log_Warn e w) w'"
  by (simp add: log_Warn_def same_but_warnings_def is_Warn_def)

lemma localCacheSet_quiet:
  assumes "same_but_warnings w w'"
  shows "same_but_warnings (localCacheSet m q a w) (localCacheSet (quiet_tiers m) q a w')"
  using assms call_Set_quiet [OF assms]
  by (simp add: localCacheSet_def quiet_tiers_def split: option.splits)

lemma cacheSet_cdb_quiet:
  assumes "same_but_warnings w w'"
  shows "same_but_warnings (cacheSet_cdb m q a ex w) (cacheSet_cdb (quiet_tiers m) q a ex w')"
proof -
  have q: "fst (call_Set Remote (quiet (cdb m)) q a ex w') = None"
    by (simp add: call_Set_def quiet_def split: prod.splits)
  have s: "same_but_warnings (snd (call_Set Remote (cdb m) q a ex w))
      (snd (call_Set Remote (quiet (cdb m)) q a ex w'))"
    by (rule call_Set_quiet [OF assms])
  show ?thesis
    using q s
    by (cases "call_Set Remote (cdb m) q a ex w"; cases "call_Set Remote (quiet (cdb m)) q a ex w'")
      (auto simp: cacheSet_cdb_def quiet_tiers_def log_Warn_same split: option.splits)
qed

lemma cacheSet_quiet:
  assumes "same_but_warnings w w'"
  shows "same_but_warnings (cacheSet m q a ld w) (cacheSet (quiet_tiers m) q a ld w')"
proof -
  have c: "cache_no_entry (quiet_tiers m) = cache_no_entry m"
    "cache_no_entry_ex (quiet_tiers m) = cache_no_entry_ex m"
    by (simp_all add: quiet_tiers_def)
  show ?thesis
    using localCacheSet_quiet [OF assms, of m q a]
    by (auto simp: cacheSet_def Let_def c intro: cacheSet_cdb_quiet)
qed


lemma cacheGet_local_quiet:
  assumes "same_but_warnings w w'"
  shows "fst (cacheGet_local (quiet_tiers m) q w') = fst (cacheGet_local m q w)
       \<and> same_but_warnings (snd (cacheGet_local m q w)) (snd (cacheGet_local (quiet_tiers m) q w'))"
proof (cases "local_cdb m")
  case None
  then show ?thesis using assms by (simp add: cacheGet_local_def quiet_tiers_def)
next
  case (Some l)
  show ?thesis
    using call_Get_quiet [OF assms, of Local l q]
    by (cases "call_Get Local l q w"; cases "call_Get Local (quiet l) q w'")
      (auto simp: cacheGet_local_def quiet_tiers_def Some)
qed

lemma cacheGet_cdb_quiet:
  assumes "same_but_warnings w w'"
  shows "fst (cacheGet_cdb (quiet_tiers m) q w') = fst (cacheGet_cdb m q w)
       \<and> same_but_warnings (snd (cacheGet_cdb m q w)) (snd (cacheGet_cdb (quiet_tiers m) q w'))"
proof -
  have c: "cdb (quiet_tiers m) = quiet (cdb m)" by (simp add: quiet_tiers_def)
  show ?thesis
    using call_Get_quiet [OF assms, of Remote "cdb m" q]
    by (cases "call_Get Remote (cdb m) q w"; cases "call_Get Remote (quiet (cdb m)) q w'")
      (auto simp: cacheGet_cdb_def c intro: localCacheSet_quiet split: option.splits)
qed

lemma cacheGet_quiet:
  assumes "same_but_warnings w w'"
  shows "fst (cacheGet (quiet_tiers m) q w') = fst (cacheGet m q w)
       \<and> same_but_warnings (snd (cacheGet m q w)) (snd (cacheGet (quiet_tiers m) q w'))"
  using cacheGet_local_quiet [OF assms, of m q]
  by (cases "cacheGet_local m q w"; cases "cacheGet_local (quiet_tiers m) q w'")
    (auto simp: cacheGet_def cacheGet_cdb_quiet split: option.splits)

lemma loadDB_quiet:
  assumes "same_but_warnings w w'"
  shows "fst (loadDB (quiet_tiers m) q ld False w') = fst (loadDB m q ld False w)
       \<and> same_but_warnings (snd (loadDB m q ld False w)) (snd (loadDB (quiet_tiers m) q ld False w'))"
  using call_Load_same [OF assms, of ld q]
  by (cases "call_Load ld q w"; cases "call_Load ld q w'")
    (auto simp: loadDB_def intro: cacheSet_quiet split: option.splits)

lemma query_quiet:
  assumes "same_but_warnings w w'"
  shows "fst (query (quiet_tiers m) q ld w') = fst (query m q ld w)
       \<and> same_but_warnings (snd (query m q ld w)) (snd (query (quiet_tiers m) q ld w'))"
proof -
  obtain r w1 where a: "cacheGet m q w = (r, w1)" by (cases "cacheGet m q w")
  obtain r' w1' where b: "cacheGet (quiet_tiers m) q w' = (r', w1')"
    by (cases "cacheGet (quiet_tiers m) q w'")
  from cacheGet_quiet [OF assms, of m q] a b
  have r: "r' = r" and s: "same_but_warnings w1 w1'" by simp_all
  obtain r2 w2 where c: "loadDB m q ld False w1 = (r2, w2)" by (cases "loadDB m q ld False w1")
  obtain r2' w2' where d: "loadDB (quiet_tiers m) q ld False w1' = (r2', w2')"
    by (cases "loadDB (quiet_tiers m) q ld False w1'")
  from loadDB_quiet [OF s, of m q ld] c d
  have r2: "r2' = r2" and s2: "same_but_warnings w2 w2'" by simp_all
  show ?thesis
    using s s2
    by (simp add: query_def a b c d r r2 split: prod.splits option.splits)
qed

text \<open>
  C7. The outcome of a call with tiers whose writes fail is the outcome of the same call
  with tiers whose writes report no error (and act on the state alike): no failure of a
  write, local or remote, reaches the caller. The two runs leave the same external state
  and the same calls in the trace; they differ in the warnings only. A failed write to the
  remote tier is logged as a warning; the result of a write to the local tier is dropped
  by \<open>localCacheSet\<close>, which logs nothing.
\<close>

theorem failed_writes_swallowed:
  "fst (getWithLoader m mp q dst ld w) = fst (getWithLoader (quiet_tiers m) mp q dst ld w)
   \<and> same_but_warnings (snd (getWithLoader m mp q dst ld w))
        (snd (getWithLoader (quiet_tiers m) mp q dst ld w))
   \<and> (\<forall>a ex w1 e w2. call_Set Remote (cdb m) q a ex w1 = (Some e, w2)
        \<longrightarrow> cacheSet_cdb m q a ex w1 = log_Warn (WithMessage e (CacheSetFailed q)) w2)"
proof -
  obtain r w1 where a: "query m q ld w = (r, w1)" by (cases "query m q ld w")
  obtain r' w1' where b: "query (quiet_tiers m) q ld w = (r', w1')"
    by (cases "query (quiet_tiers m) q ld w")
  from query_quiet [OF same_refl, of m q ld w] a b
  have r: "r' = r" and s: "same_but_warnings w1 w1'" by simp_all
  have d: "deepcopy_result (quiet_tiers m) = deepcopy_result m" by (simp add: quiet_tiers_def)
  have "fst (getWithLoader m mp q dst ld w) = fst (getWithLoader (quiet_tiers m) mp q dst ld w)"
    by (simp add: getWithLoader_def Do_def getWithLoader_fn_def getWithLoader_ret_def a b r d
        split: prod.splits option.splits)
  moreover have "same_but_warnings (snd (getWithLoader m mp q dst ld w))
        (snd (getWithLoader (quiet_tiers m) mp q dst ld w))"
    using s
    by (simp add: getWithLoader_def Do_def getWithLoader_fn_def a b r d
        split: prod.splits option.splits)
  moreover have "\<forall>a ex w1 e w2. call_Set Remote (cdb m) q a ex w1 = (Some e, w2)
        \<longrightarrow> cacheSet_cdb m q a ex w1 = log_Warn (WithMessage e (CacheSetFailed q)) w2"
    by (simp add: cacheSet_cdb_def)
  ultimately show ?thesis by blast
qed


theorem failed_writes_swallowed_witness:
  "getWithLoader
     (New_BECache (fixed_cdb (nil, Some ErrNoEntry) (Some (External ''full'')))
        \<lparr>local_cdb := Some (fixed_cdb (nil, Some ErrNoEntry) (Some (External ''full'')))\<rparr>)
     (fixed_msgpack ([], None) (Inr nil)) user42 any_dest (fixed_loader ''user'' (Obj 7, None) 60) start
   = (Done (Obj 7),
      \<lparr>ext = (),
       trace = [EGet Local user42, EGet Remote user42, ELoad user42,
                ESet Local user42 (Obj 7) 1000000000, ESet Remote user42 (Obj 7) 60,
                EWarn (WithMessage (External ''full'') (CacheSetFailed user42))]\<rparr>)
   \<and> fst (getWithLoader
     (quiet_tiers (New_BECache (fixed_cdb (nil, Some ErrNoEntry) (Some (External ''full'')))
        \<lparr>local_cdb := Some (fixed_cdb (nil, Some ErrNoEntry) (Some (External ''full'')))\<rparr>))
     (fixed_msgpack ([], None) (Inr nil)) user42 any_dest (fixed_loader ''user'' (Obj 7, None) 60) start)
   = Done (Obj 7)
   \<and> cacheSet_cdb
     (New_BECache (fixed_cdb (nil, Some ErrNoEntry) (Some (External ''full'')))
        \<lparr>local_cdb := Some (fixed_cdb (nil, Some ErrNoEntry) (Some (External ''full'')))\<rparr>)
     user42 (Obj 7) 60 start
   = \<lparr>ext = (),
      trace = [ESet Remote user42 (Obj 7) 60,
               EWarn (WithMessage (External ''full'') (CacheSetFailed user42))]\<rparr>"
proof -
  let ?c = "fixed_cdb (nil, Some ErrNoEntry) (Some (External ''full'')) :: (unit, nat) cachedb"
  let ?m = "New_BECache ?c\<lparr>local_cdb := Some ?c\<rparr>"
  let ?mp = "fixed_msgpack ([], None) (Inr nil) :: nat msgpack"
  let ?ld = "fixed_loader ''user'' (Obj 7, None) 60 :: (unit, nat) loader"
  have run: "getWithLoader ?m ?mp user42 any_dest ?ld start
     = (Done (Obj 7),
      \<lparr>ext = (),
       trace = [EGet Local user42, EGet Remote user42, ELoad user42,
                ESet Local user42 (Obj 7) 1000000000, ESet Remote user42 (Obj 7) 60,
                EWarn (WithMessage (External ''full'') (CacheSetFailed user42))]\<rparr>)"
    by (simp add: New_BECache_def fixed_cdb_def fixed_loader_def getWithLoader_def Do_def
        getWithLoader_fn_def getWithLoader_ret_def query_def cacheGet_def cacheGet_local_def
        cacheGet_cdb_def call_Get_def call_Load_def call_Set_def loadDB_def cacheSet_def
        cacheSet_cdb_def localCacheSet_def log_Warn_def start_def DefaultLocalCacheExpire_def
        any_dest_def)
  from failed_writes_swallowed [of ?m ?mp user42 any_dest ?ld start]
  have "fst (getWithLoader (quiet_tiers ?m) ?mp user42 any_dest ?ld start)
      = fst (getWithLoader ?m ?mp user42 any_dest ?ld start)"
    by simp
  moreover have h: "call_Set Remote (cdb ?m) user42 (Obj 7) 60 start
      = (Some (External ''full''), \<lparr>ext = (), trace = [ESet Remote user42 (Obj 7) 60]\<rparr>)"
    by (simp add: call_Set_def New_BECache_def fixed_cdb_def start_def)
  from failed_writes_swallowed [of ?m ?mp user42 any_dest ?ld start, THEN conjunct2, THEN conjunct2,
      rule_format, OF h]
  have "cacheSet_cdb ?m user42 (Obj 7) 60 start
      = \<lparr>ext = (),
         trace = [ESet Remote user42 (Obj 7) 60,
                  EWarn (WithMessage (External ''full'') (CacheSetFailed user42))]\<rparr>"
    by (simp add: log_Warn_def)
  ultimately show ?thesis using run by simp
qed

section \<open>Keys confirmed absent\<close>

text \<open>
  What the orchestrator does when the loader reports \<^verbatim>\<open>ErrNoEntry\<close>: \<open>loadDB\<close> writes the
  marker through \<open>cacheSet\<close> and returns the sentinel. The marker goes to the local tier
  when one is configured, whatever \<open>cache_no_entry\<close> says, and to the remote tier exactly
  when \<open>cache_no_entry\<close> is set, with \<open>cache_no_entry_ex\<close>. After a no-record miss, and
  when a marker is found in a tier, the caller gets \<open>EntryNotFound\<close>.
\<close>

lemma cacheSet_marker_trace:
  "\<exists>ws. trace (cacheSet m q NoEntry_obj ld w)
        = trace w @ local_sets m q NoEntry_obj
          @ (if cache_no_entry m then ESet Remote q NoEntry_obj (cache_no_entry_ex m) # ws else [])
      \<and> list_all is_Warn ws"
  using cacheSet_cdb_trace [of m q NoEntry_obj "cache_no_entry_ex m" "localCacheSet m q NoEntry_obj w"]
  by (auto simp: cacheSet_def Let_def localCacheSet_trace)

lemma loadDB_not_found:
  assumes "call_Load ld q w = ((a, Some ErrNoEntry), w1)"
  shows "loadDB m q ld d w = ((nil, Some ErrNoEntry), cacheSet m q NoEntry_obj ld w1)"
  using assms by (simp add: loadDB_def)

lemma not_found_after_clean_miss:
  assumes "cacheGet_local m q w = (None, w1)"
      and "call_Get Remote (cdb m) q w1 = ((out, Some ErrNoEntry), w2)"
      and "call_Load ld q w2 = ((a, Some ErrNoEntry), w3)"
  shows "getWithLoader m mp q dst ld w = (EntryNotFound q, cacheSet m q NoEntry_obj ld w3)"
  using assms(3)
  by (simp add: getWithLoader_def Do_def getWithLoader_fn_def getWithLoader_ret_def
      query_miss [OF assms(1,2)] loadDB_def EntryNotFound_def)

lemma marker_found:
  assumes "query m q ld w = ((out, Some NoEntry), w1)"
  shows "getWithLoader m mp q dst ld w = (EntryNotFound q, w1)"
  using assms
  by (simp add: getWithLoader_def Do_def getWithLoader_fn_def getWithLoader_ret_def
      EntryNotFound_def)

text \<open>
  In part_000 the loader reports an absent entry by a \<^verbatim>\<open>nil\<close> value with a \<^verbatim>\<open>nil\<close> error,
  and the caller gets \<^verbatim>\<open>NilData\<close> for it whatever the read of the cache had returned.
\<close>

lemma not_found_after_read_failure_p0:
  assumes "cacheGet_p0 m q w = ((out, Some ge), w1)"
      and "ge \<noteq> NilData"
      and "call_Load ld q w1 = ((nil, None), w2)"
  shows "fst (getWithLoader_p0 m q dst ld w) = Failed NilData"
  using assms
  by (simp add: getWithLoader_p0_def Do_def query_p0_def loadDB_p0_def split: prod.splits)

text \<open>
  C3, at a failing input. The local tier has no record, the remote tier fails to read,
  the loader reports \<^verbatim>\<open>ErrNoEntry\<close>. The marker is written as the claim says (local tier
  with \<open>local_cdb_ex\<close>, remote tier with \<open>cache_no_entry_ex\<close>, not the 60 of the loader),
  but \<open>query\<close> folds the sentinel into the combined error as text, and the call does not
  return \<open>EntryNotFound\<close>.
\<close>

theorem not_found_after_read_failure:
  "getWithLoader
     (New_BECache (fixed_cdb (nil, Some (External ''down'')) None)
        \<lparr>local_cdb := Some (fixed_cdb (nil, Some ErrNoEntry) None)\<rparr>)
     (fixed_msgpack ([], None) (Inr nil)) user42 any_dest
     (fixed_loader ''user'' (nil, Some ErrNoEntry) 60) start
   = (Failed (WithMessage
        (WithMessage (WithMessage (External ''down'') CacheLoadFailed) (ErrorText ErrNoEntry))
        (LoadFailed user42)),
      \<lparr>ext = (),
       trace = [EGet Local user42, EGet Remote user42, ELoad user42,
                ESet Local user42 NoEntry_obj 1000000000,
                ESet Remote user42 NoEntry_obj 5000000000]\<rparr>)
   \<and> Failed (WithMessage
        (WithMessage (WithMessage (External ''down'') CacheLoadFailed) (ErrorText ErrNoEntry))
        (LoadFailed user42))
     \<noteq> (EntryNotFound user42 :: nat object outcome)"
  by (simp add: New_BECache_def fixed_cdb_def fixed_loader_def getWithLoader_def Do_def
      getWithLoader_fn_def getWithLoader_ret_def query_def cacheGet_def cacheGet_local_def
      cacheGet_cdb_def call_Get_def call_Load_def call_Set_def loadDB_def cacheSet_def
      cacheSet_cdb_def localCacheSet_def start_def DefaultLocalCacheExpire_def
      DefaultCacheNoEntryExpire_def EntryNotFound_def)

text \<open>
  C6, at a failing input. A marker found in the remote tier and a loader that reports
  \<^verbatim>\<open>ErrNoEntry\<close> after a no-record miss both give \<open>EntryNotFound\<close>. The same loader after a
  failed read of the remote tier gives another outcome: the two cases of the claim do not
  yield the same outcome there.
\<close>

theorem absent_outcomes_differ:
  "fst (getWithLoader (New_BECache (fixed_cdb (nil, Some NoEntry) None))
       (fixed_msgpack ([], None) (Inr nil)) user42 any_dest
       (fixed_loader ''user'' (nil, Some ErrNoEntry) 60) start)
     = (EntryNotFound user42 :: nat object outcome)
   \<and> fst (getWithLoader (New_BECache (fixed_cdb (nil, Some ErrNoEntry) None))
       (fixed_msgpack ([], None) (Inr nil)) user42 any_dest
       (fixed_loader ''user'' (nil, Some ErrNoEntry) 60) start)
     = (EntryNotFound user42 :: nat object outcome)
   \<and> fst (getWithLoader (New_BECache (fixed_cdb (nil, Some (External ''timeout'')) None))
       (fixed_msgpack ([], None) (Inr nil)) user42 any_dest
       (fixed_loader ''user'' (nil, Some ErrNoEntry) 60) start)
     = (Failed (WithMessage
          (WithMessage (WithMessage (External ''timeout'') CacheLoadFailed)
             (ErrorText ErrNoEntry))
          (LoadFailed user42)) :: nat object outcome)
   \<and> fst (getWithLoader (New_BECache (fixed_cdb (nil, Some (External ''timeout'')) None))
       (fixed_msgpack ([], None) (Inr nil)) user42 any_dest
       (fixed_loader ''user'' (nil, Some ErrNoEntry) 60) start)
     \<noteq> (EntryNotFound user42 :: nat object outcome)"
  by (simp add: New_BECache_def fixed_cdb_def fixed_loader_def getWithLoader_def Do_def
      getWithLoader_fn_def getWithLoader_ret_def query_def cacheGet_def cacheGet_local_def
      cacheGet_cdb_def call_Get_def call_Load_def call_Set_def loadDB_def cacheSet_def
      cacheSet_cdb_def localCacheSet_def start_def EntryNotFound_def)

section \<open>The check of the query\<close>

lemma Check_empty: "Space q = [] \<or> Key q = [] \<Longrightarrow> Check q = Panicked"
  by (simp add: Check_def)

lemma Check_valid: "Space q \<noteq> [] \<Longrightarrow> Key q \<noteq> [] \<Longrightarrow> Check q = Done ()"
  by (simp add: Check_def)

lemma cacheGet_cdb_first:
  "\<exists>evs. trace (snd (cacheGet_cdb m q w)) = trace w @ EGet Remote q # evs"
  by (auto simp: cacheGet_cdb_def localCacheSet_trace call_Get_def
      split: prod.splits option.splits)

lemma cacheGet_first: "\<exists>t evs. trace (snd (cacheGet m q w)) = trace w @ EGet t q # evs"
proof (cases "local_cdb m")
  case None
  then show ?thesis
    using cacheGet_cdb_first [of m q w] by (auto simp: cacheGet_def cacheGet_local_def)
next
  case (Some l)
  obtain r w1 where g: "call_Get Local l q w = (r, w1)" by (cases "call_Get Local l q w")
  have t: "trace w1 = trace w @ [EGet Local q]" by (rule call_Get_trace [OF g])
  show ?thesis
    using cacheGet_cdb_first [of m q w1] t g Some
    by (cases r) (auto simp: cacheGet_def cacheGet_local_def)
qed

lemma loadDB_ext: "\<exists>evs. trace (snd (loadDB m q ld False w)) = trace w @ evs"
  using loadDB_trace [of m q ld w] by auto

lemma query_first: "\<exists>t evs. trace (snd (query m q ld w)) = trace w @ EGet t q # evs"
proof -
  obtain r w1 where c: "cacheGet m q w = (r, w1)" by (cases "cacheGet m q w")
  from cacheGet_first [of m q w] c obtain t evs where
    t: "trace w1 = trace w @ EGet t q # evs" by auto
  from loadDB_ext [of m q ld w1] obtain evs' where
    l: "trace (snd (loadDB m q ld False w1)) = trace w1 @ evs'" by auto
  show ?thesis
    using t l
    by (cases r) (auto simp: query_def c split: prod.splits option.splits)
qed

lemma cacheDel_last: "\<exists>evs. trace (snd (cacheDel m q w)) = trace w @ evs @ [EDel Remote q]"
  by (auto simp: cacheDel_def call_Del_def split: prod.splits option.splits)

text \<open>
  C9, as amended. In part_000 every public operation that takes a query calls
  \<^verbatim>\<open>query.Check()\<close> first: with an empty namespace or an empty identifier each of them
  panics and leaves the world as it was, so no tier, no loader and no registry lookup is
  reached; with both components non-empty the operation is its body. The operations of
  be_cache.go call no check. For every query, empty components or not, \<^verbatim>\<open>GetWithLoader\<close>
  and \<^verbatim>\<open>Get\<close> (with a loader registered for the namespace) are \<open>getWithLoader\<close>, whose first
  call is the read of a tier, and \<^verbatim>\<open>DelData\<close> is \<open>cacheDel\<close>, which ends with the delete in
  the remote tier.
\<close>

theorem check_only_in_part_000:
  "(Space q = [] \<or> Key q = [] \<longrightarrow>
      Get_p0 n q dst w = (Panicked, w)
      \<and> GetWithContext_p0 n ctx q dst w = (Panicked, w)
      \<and> GetWithLoader_p0 n ctx q dst ld w = (Panicked, w)
      \<and> DelData_p0 n q w = (Panicked, w))
   \<and> (Space q \<noteq> [] \<and> Key q \<noteq> [] \<longrightarrow>
      GetWithLoader_p0 n None q dst ld w = getWithLoader_p0 n q dst ld w
      \<and> DelData_p0 n q w = (ret (fst (cacheDel_p0 n q w)), snd (cacheDel_p0 n q w)))
   \<and> GetWithLoader m mp None q dst ld w = getWithLoader m mp q dst ld w
   \<and> (loaders m (Space q) = Some ld \<longrightarrow>
        Get_BECache m mp q dst w = getWithLoader m mp q dst ld w)
   \<and> (\<exists>t evs. trace (snd (getWithLoader m mp q dst ld w)) = trace w @ EGet t q # evs)
   \<and> DelData m q w = (ret (fst (cacheDel m q w)), snd (cacheDel m q w))
   \<and> (\<exists>evs. trace (snd (DelData m q w)) = trace w @ evs @ [EDel Remote q])"
proof (intro conjI impI)
  assume e: "Space q = [] \<or> Key q = []"
  show "GetWithContext_p0 n ctx q dst w = (Panicked, w)" for ctx
    by (simp add: GetWithContext_p0_def Check_empty [OF e])
  then show "Get_p0 n q dst w = (Panicked, w)" by (simp add: Get_p0_def)
  show "GetWithLoader_p0 n ctx q dst ld w = (Panicked, w)"
    by (simp add: GetWithLoader_p0_def Check_empty [OF e])
  show "DelData_p0 n q w = (Panicked, w)"
    by (simp add: DelData_p0_def Check_empty [OF e])
next
  assume "Space q \<noteq> [] \<and> Key q \<noteq> []"
  then have v: "Check q = Done ()" by (simp add: Check_valid)
  show "GetWithLoader_p0 n None q dst ld w = getWithLoader_p0 n q dst ld w"
    by (simp add: GetWithLoader_p0_def v)
  show "DelData_p0 n q w = (ret (fst (cacheDel_p0 n q w)), snd (cacheDel_p0 n q w))"
    by (simp add: DelData_p0_def v split: prod.splits)
next
  show "GetWithLoader m mp None q dst ld w = getWithLoader m mp q dst ld w"
    by (rule GetWithLoader_nil)
  show "Get_BECache m mp q dst w = getWithLoader m mp q dst ld w"
    if "loaders m (Space q) = Some ld"
    using that by (rule Get_registered)
  show "\<exists>t evs. trace (snd (getWithLoader m mp q dst ld w)) = trace w @ EGet t q # evs"
    using query_first [of m q ld w] by (simp add: getWithLoader_world)
  show d: "DelData m q w = (ret (fst (cacheDel m q w)), snd (cacheDel m q w))"
    by (simp add: DelData_def split: prod.splits)
  show "\<exists>evs. trace (snd (DelData m q w)) = trace w @ evs @ [EDel Remote q]"
    using cacheDel_last [of m q w] by (simp add: d)
qed

theorem check_only_in_part_000_witness:
  "Get_p0 (New_p0 (fixed_cdb (Obj 7, None) None)) \<lparr>Space = ''user'', Key = []\<rparr> any_dest start
     = (Panicked, start)
   \<and> GetWithLoader_p0 (New_p0 (fixed_cdb (Obj 7, None) None)) None \<lparr>Space = [], Key = ''42''\<rparr>
       any_dest (fixed_loader ''user'' (Obj 8, None) 60) start
     = (Panicked, start)
   \<and> DelData_p0 (New_p0 (fixed_cdb (Obj 7, None) None)) \<lparr>Space = [], Key = []\<rparr> start
     = (Panicked, start)
   \<and> GetWithLoader_p0 (New_p0 (fixed_cdb (Obj 7, None) None)) None user42 any_dest
       (fixed_loader ''user'' (Obj 8, None) 60) start
     = (Done (Obj 7), \<lparr>ext = (), trace = [EGet Remote user42]\<rparr>)
   \<and> DelData_p0 (New_p0 (fixed_cdb (Obj 7, None) None)) user42 start
     = (Done (), \<lparr>ext = (), trace = [EDel Remote user42]\<rparr>)
   \<and> Get_BECache
       (RegisterLoader (New_BECache (fixed_cdb (Obj 7, None) None))
          (fixed_loader ''user'' (Obj 8, None) 60))
       (fixed_msgpack ([], None) (Inr nil)) \<lparr>Space = ''user'', Key = []\<rparr> any_dest start
     = (Done (Obj 7), \<lparr>ext = (), trace = [EGet Remote \<lparr>Space = ''user'', Key = []\<rparr>]\<rparr>)"
proof -
  let ?old = "New_p0 (fixed_cdb (Obj 7, None) None) :: (unit, nat) BECache_p0"
  let ?ld = "fixed_loader ''user'' (Obj 8, None) 60 :: (unit, nat) loader"
  let ?new = "RegisterLoader (New_BECache (fixed_cdb (Obj 7, None) None)) ?ld"
  let ?mp = "fixed_msgpack ([], None) (Inr nil) :: nat msgpack"
  let ?q = "\<lparr>Space = ''user'', Key = []\<rparr>"
  note T = check_only_in_part_000 [where n = ?old and m = ?new and mp = ?mp and ld = ?ld
      and w = start and dst = any_dest and ctx = None]
  have a: "Get_p0 ?old ?q any_dest start = (Panicked, start)"
    using T [of ?q] by simp
  have b: "GetWithLoader_p0 ?old None \<lparr>Space = [], Key = ''42''\<rparr> any_dest ?ld start
      = (Panicked, start)"
    using T [of "\<lparr>Space = [], Key = ''42''\<rparr>"] by simp
  have c: "DelData_p0 ?old \<lparr>Space = [], Key = []\<rparr> start = (Panicked, start)"
    using T [of "\<lparr>Space = [], Key = []\<rparr>"] by simp
  have d: "GetWithLoader_p0 ?old None user42 any_dest ?ld start
      = getWithLoader_p0 ?old user42 any_dest ?ld start"
    and f: "DelData_p0 ?old user42 start
      = (ret (fst (cacheDel_p0 ?old user42 start)), snd (cacheDel_p0 ?old user42 start))"
    using T [of user42] by (simp_all add: user42_def)
  have e: "getWithLoader_p0 ?old user42 any_dest ?ld start
      = (Done (Obj 7), \<lparr>ext = (), trace = [EGet Remote user42]\<rparr>)"
    by (simp add: getWithLoader_p0_def Do_def query_p0_def cacheGet_p0_def cacheGet_local_p0_def
        cacheGet_cdb_p0_def localCacheSet_p0_def call_Get_def New_p0_def fixed_cdb_def start_def
        any_dest_def)
  have f': "cacheDel_p0 ?old user42 start = (None, \<lparr>ext = (), trace = [EDel Remote user42]\<rparr>)"
    by (simp add: cacheDel_p0_def call_Del_def New_p0_def fixed_cdb_def start_def)
  have l: "loaders ?new (Space ?q) = Some ?ld"
    by (simp add: RegisterLoader_def fixed_loader_def)
  have g: "Get_BECache ?new ?mp ?q any_dest start = getWithLoader ?new ?mp ?q any_dest ?ld start"
    using T [of ?q] l by simp
  have h: "getWithLoader ?new ?mp ?q any_dest ?ld start
      = (Done (Obj 7), \<lparr>ext = (), trace = [EGet Remote ?q]\<rparr>)"
    by (simp add: getWithLoader_def Do_def getWithLoader_fn_def getWithLoader_ret_def query_def
        cacheGet_def cacheGet_local_def cacheGet_cdb_def localCacheSet_def call_Get_def
        RegisterLoader_def New_BECache_def fixed_cdb_def start_def any_dest_def)
  from a b c d e f f' g h show ?thesis by (simp add: ret_def)
qed

text \<open>
  In be_cache.go a query with an empty identifier is read from the remote tier and its
  value returned, and a query with both components empty is deleted from the remote tier:
  neither operation fails.
\<close>

theorem unchecked_query_counterexample:
  "Get_BECache
       (RegisterLoader (New_BECache (fixed_cdb (Obj 7, None) None))
          (fixed_loader ''user'' (Obj 8, None) 60))
       (fixed_msgpack ([], None) (Inr nil)) \<lparr>Space = ''user'', Key = []\<rparr> any_dest start
     = (Done (Obj 7), \<lparr>ext = (), trace = [EGet Remote \<lparr>Space = ''user'', Key = []\<rparr>]\<rparr>)
   \<and> DelData (New_BECache (fixed_cdb (Obj 7, None) None)) \<lparr>Space = [], Key = []\<rparr> start
     = (Done (), \<lparr>ext = (), trace = [EDel Remote \<lparr>Space = [], Key = []\<rparr>]\<rparr>)"
  by (simp add: Get_BECache_def GetWithContext_def getLoader_def GetWithLoader_def
      doFnWithContext_def getWithLoader_def Do_def getWithLoader_fn_def getWithLoader_ret_def
      query_def cacheGet_def cacheGet_local_def cacheGet_cdb_def localCacheSet_def call_Get_def
      RegisterLoader_def New_BECache_def fixed_cdb_def fixed_loader_def start_def any_dest_def
      DelData_def cacheDel_def call_Del_def ret_def)

section \<open>A failure of the encoder in copy mode\<close>

lemma cacheSet_value_trace:
  "\<exists>ws. trace (cacheSet m q (Obj v) ld w)
        = trace w @ local_sets m q (Obj v) @ ESet Remote q (Obj v) (Expire ld) # ws
      \<and> list_all is_Warn ws"
  using cacheSet_cdb_trace [of m q "Obj v" "Expire ld" "localCacheSet m q (Obj v) w"]
  by (auto simp: cacheSet_def Let_def localCacheSet_trace)

text \<open>
  C10. In copy mode, after a miss and a load that returned a value, a failure \<open>e\<close> of
  the encoder makes the closure return the pair of the bytes and \<open>e\<close>; every caller that
  is handed this pair returns \<open>e\<close> wrapped with the path (\<open>getWithLoader_ret\<close> depends on
  the pair only). The world is the one \<open>cacheSet\<close> left: the value has been written to
  the local tier, if there is one, and to the remote tier with the loader's TTL, and
  nothing follows these writes but the warning of a failed remote write. No delete is
  issued.
\<close>

theorem encode_failure_after_writes:
  assumes "deepcopy_result m"
      and "cacheGet_local m q w = (None, w1)"
      and "call_Get Remote (cdb m) q w1 = ((out, Some ge), w2)"
      and "ge \<noteq> NoEntry"
      and "call_Load ld q w2 = ((Obj v, None), w3)"
      and "Encode mp (Obj v) = (bs, Some e)"
  shows "getWithLoader_fn m mp q ld w = ((S_bytes bs, Some e), cacheSet m q (Obj v) ld w3)
       \<and> getWithLoader_ret m mp q dst (S_bytes bs, Some e)
           = Failed (WithMessage (if e = NoEntry then ErrNoEntry else e) (LoadFailed q))
       \<and> getWithLoader m mp q dst ld w
           = (Failed (WithMessage (if e = NoEntry then ErrNoEntry else e) (LoadFailed q)),
              cacheSet m q (Obj v) ld w3)
       \<and> (\<exists>ws. trace (cacheSet m q (Obj v) ld w3)
                 = trace w3 @ local_sets m q (Obj v) @ ESet Remote q (Obj v) (Expire ld) # ws
               \<and> list_all is_Warn ws)"
proof -
  have f: "getWithLoader_fn m mp q ld w = ((S_bytes bs, Some e), cacheSet m q (Obj v) ld w3)"
    using assms(1,5,6)
    by (simp add: getWithLoader_fn_def query_miss [OF assms(2,3,4)] loadDB_def)
  have r: "getWithLoader_ret m mp q dst (S_bytes bs, Some e)
      = Failed (WithMessage (if e = NoEntry then ErrNoEntry else e) (LoadFailed q))"
    by (simp add: getWithLoader_ret_def)
  have g: "getWithLoader m mp q dst ld w
      = (Failed (WithMessage (if e = NoEntry then ErrNoEntry else e) (LoadFailed q)),
         cacheSet m q (Obj v) ld w3)"
    by (simp add: getWithLoader_def Do_def f r)
  from f r g cacheSet_value_trace [of m q v ld w3] show ?thesis by blast
qed

theorem encode_failure_after_writes_witness:
  "getWithLoader
     (New_BECache (fixed_cdb (nil, Some ErrNoEntry) None)
        \<lparr>local_cdb := Some (fixed_cdb (nil, Some ErrNoEntry) None), deepcopy_result := True\<rparr>)
     (fixed_msgpack ([], Some (External ''encode'')) (Inr nil)) user42 any_dest
     (fixed_loader ''user'' (Obj 7, None) 60) start
   = (Failed (WithMessage (External ''encode'') (LoadFailed user42)),
      \<lparr>ext = (),
       trace = [EGet Local user42, EGet Remote user42, ELoad user42,
                ESet Local user42 (Obj 7) 1000000000, ESet Remote user42 (Obj 7) 60]\<rparr>)"
proof -
  let ?c = "fixed_cdb (nil, Some ErrNoEntry) None :: (unit, nat) cachedb"
  let ?m = "New_BECache ?c\<lparr>local_cdb := Some ?c, deepcopy_result := True\<rparr>"
  let ?mp = "fixed_msgpack ([], Some (External ''encode'')) (Inr nil) :: nat msgpack"
  let ?ld = "fixed_loader ''user'' (Obj 7, None) 60 :: (unit, nat) loader"
  let ?w1 = "\<lparr>ext = (), trace = [EGet Local user42]\<rparr> :: (unit, nat) world"
  let ?w2 = "\<lparr>ext = (), trace = [EGet Local user42, EGet Remote user42]\<rparr> :: (unit, nat) world"
  let ?w3 = "\<lparr>ext = (), trace = [EGet Local user42, EGet Remote user42, ELoad user42]\<rparr>
    :: (unit, nat) world"
  have d: "deepcopy_result ?m" by (simp add: New_BECache_def)
  have l: "cacheGet_local ?m user42 start = (None, ?w1)"
    by (simp add: cacheGet_local_def New_BECache_def call_Get_def fixed_cdb_def start_def)
  have g: "call_Get Remote (cdb ?m) user42 ?w1 = ((nil, Some ErrNoEntry), ?w2)"
    by (simp add: call_Get_def New_BECache_def fixed_cdb_def)
  have n: "ErrNoEntry \<noteq> NoEntry" by simp
  have ld: "call_Load ?ld user42 ?w2 = ((Obj 7, None), ?w3)"
    by (simp add: call_Load_def fixed_loader_def)
  have e: "Encode ?mp (Obj 7) = ([], Some (External ''encode''))"
    by (simp add: fixed_msgpack_def)
  have s: "cacheSet ?m user42 (Obj 7) ?ld ?w3
      = \<lparr>ext = (),
         trace = [EGet Local user42, EGet Remote user42, ELoad user42,
                  ESet Local user42 (Obj 7) 1000000000, ESet Remote user42 (Obj 7) 60]\<rparr>"
    by (simp add: cacheSet_def cacheSet_cdb_def localCacheSet_def call_Set_def New_BECache_def
        fixed_cdb_def fixed_loader_def DefaultLocalCacheExpire_def)
  from encode_failure_after_writes [OF d l g n ld e] show ?thesis by (simp add: s)
qed

end
